theory Spec2Isabelle
  imports Main
begin

section \<open>JavaScript values exchanged with the browser driver\<close>

text \<open>
  The page objects of the repository are thin TypeScript classes over the Playwright
  driver. The driver is not part of the repository, so it is a parameter of the model
  (the record \<open>driver\<close> below): a theorem about a page object holds for every
  driver behaviour, unless it names the simulated shop it is run on. The browser changes
  state only through the calls of the driver. Strings are modelled as \<open>char list\<close>,
  a character being the UTF-16 code unit of the same number: the strings of the model
  are the JavaScript strings over U+0000 to U+00FF. The case mapping and the white space
  class of JavaScript are given in full on that range.
\<close>

type_synonym selector = string

text \<open>\<^verbatim>\<open>page.locator(sel)\<close>, \<^verbatim>\<open>loc.locator(sel)\<close> and \<^verbatim>\<open>loc.first()\<close>: a locator
  is lazy, it only describes how to find elements.\<close>

datatype locator = Locator selector | Sub locator selector | First locator

text \<open>A thrown JavaScript error object: its \<^verbatim>\<open>name\<close> and its \<^verbatim>\<open>message\<close>.\<close>

datatype thrown = Thrown (err_name: string) (err_message: string)

text \<open>\<^verbatim>\<open>new Error(msg)\<close>\<close>

definition Error :: "string \<Rightarrow> thrown" where
  "Error msg = Thrown ''Error'' msg"

text \<open>\<^verbatim>\<open>${error}\<close> inside a template literal: \<^verbatim>\<open>Error.prototype.toString\<close>.\<close>

fun toString :: "thrown \<Rightarrow> string" where
  "toString (Thrown n m) = (if n = [] then m else if m = [] then n else n @ '': '' @ m)"

text \<open>\<^verbatim>\<open>"${s}"\<close>: a string between double quotes.\<close>

definition quoted :: "string \<Rightarrow> string" where
  "quoted s = CHR 0x22 # s @ [CHR 0x22]"

text \<open>Number to string for a non-negative integer (below \<open>10^21\<close>, where JavaScript
  switches to exponent notation): its decimal digits.\<close>

definition digit_char :: "nat \<Rightarrow> char" where
  "digit_char n = (''0123456789'' ! n)"

function show_nat :: "nat \<Rightarrow> string" where
  "show_nat n = (if n < 10 then [digit_char n] else show_nat (n div 10) @ [digit_char (n mod 10)])"
  by pat_completeness auto
termination
  by (relation "measure (\<lambda>n. n)") auto

declare show_nat.simps [simp del]

text \<open>\<^verbatim>\<open>${timeout || 'default'}\<close> for the optional parameter \<^verbatim>\<open>timeout?: number\<close>
  (milliseconds, a non-negative integer here): \<^verbatim>\<open>undefined\<close> and \<open>0\<close> are both falsy.\<close>

definition timeout_or_default :: "nat option \<Rightarrow> string" where
  "timeout_or_default timeout =
     (case timeout of None \<Rightarrow> ''default'' | Some t \<Rightarrow> if t = 0 then ''default'' else show_nat t)"

section \<open>The driver and the effects of a call\<close>

text \<open>The argument of \<^verbatim>\<open>expect(page).toHaveURL(...)\<close>: a string or a regular expression
  (given by its source).\<close>

datatype url_matcher = UrlString string | UrlRegExp string

text \<open>The driver operations the page objects call. \<open>ToBeVisible l t\<close> is
  \<^verbatim>\<open>expect(l).toBeVisible({ timeout: t })\<close>, \<open>NotToBeVisible l\<close> is
  \<^verbatim>\<open>expect(l).not.toBeVisible()\<close>, \<open>ToHaveText l s t\<close> is
  \<^verbatim>\<open>expect(l).toHaveText(s, { timeout: t })\<close>; a timeout of \<open>None\<close> is
  \<^verbatim>\<open>undefined\<close>, for which the driver takes its configured default.\<close>

datatype call =
    Goto string
  | ToBeVisible locator "nat option"
  | NotToBeVisible locator
  | ToHaveText locator string "nat option"
  | ToHaveCount locator nat
  | ToHaveURL url_matcher
  | Click locator
  | Fill locator string
  | Press locator string
  | SelectOption locator string
  | AllTextContents locator

text \<open>What a page-object call leaves behind: each driver call in the order issued, with
  whether it succeeded, and each \<^verbatim>\<open>console.error\<close> line.\<close>

datatype event = Called call bool | ConsoleError string

text \<open>The driver over a browser state \<open>'b\<close>. \<open>perform\<close> runs an operation that returns
  nothing (\<open>Some e\<close>: it threw \<open>e\<close>), \<open>allTextContents\<close> is
  \<^verbatim>\<open>locator.allTextContents()\<close>, \<open>url\<close> is the synchronous \<^verbatim>\<open>page.url()\<close>, and
  \<open>newRegExp\<close> is the constructor \<^verbatim>\<open>new RegExp(source)\<close>, which throws on a
  malformed source.\<close>

record 'b driver =
  perform :: "call \<Rightarrow> 'b \<Rightarrow> thrown option \<times> 'b"
  allTextContents :: "locator \<Rightarrow> 'b \<Rightarrow> (thrown + string list) \<times> 'b"
  url :: "'b \<Rightarrow> string"
  newRegExp :: "string \<Rightarrow> thrown option"

text \<open>An awaited computation: from the browser state to its outcome (\<open>Inl\<close>: the error
  thrown), the new browser state and the events it produced.\<close>

type_synonym ('a, 'b) io = "'b \<Rightarrow> (thrown + 'a) \<times> 'b \<times> event list"

definition return_io :: "'a \<Rightarrow> ('a, 'b) io" where
  "return_io a b = (Inr a, b, [])"

definition throw_io :: "thrown \<Rightarrow> ('a, 'b) io" where
  "throw_io e b = (Inl e, b, [])"

definition bind_io :: "('a, 'b) io \<Rightarrow> ('a \<Rightarrow> ('c, 'b) io) \<Rightarrow> ('c, 'b) io" where
  "bind_io m f b =
     (case m b of
        (Inl e, b1, ev1) \<Rightarrow> (Inl e, b1, ev1)
      | (Inr a, b1, ev1) \<Rightarrow> (case f a b1 of (r, b2, ev2) \<Rightarrow> (r, b2, ev1 @ ev2)))"

text \<open>\<^verbatim>\<open>try { m } catch (error) { h(error) }\<close>\<close>

definition try_catch :: "('a, 'b) io \<Rightarrow> (thrown \<Rightarrow> ('a, 'b) io) \<Rightarrow> ('a, 'b) io" where
  "try_catch m h b =
     (case m b of
        (Inr a, b1, ev1) \<Rightarrow> (Inr a, b1, ev1)
      | (Inl e, b1, ev1) \<Rightarrow> (case h e b1 of (r, b2, ev2) \<Rightarrow> (r, b2, ev1 @ ev2)))"

definition console_error :: "string \<Rightarrow> (unit, 'b) io" where
  "console_error line b = (Inr (), b, [ConsoleError line])"

definition issue :: "'b driver \<Rightarrow> call \<Rightarrow> (unit, 'b) io" where
  "issue d c b =
     (case perform d c b of
        (None, b1) \<Rightarrow> (Inr (), b1, [Called c True])
      | (Some e, b1) \<Rightarrow> (Inl e, b1, [Called c False]))"

definition read_texts :: "'b driver \<Rightarrow> locator \<Rightarrow> (string list, 'b) io" where
  "read_texts d l b =
     (case allTextContents d l b of
        (Inr xs, b1) \<Rightarrow> (Inr xs, b1, [Called (AllTextContents l) True])
      | (Inl e, b1) \<Rightarrow> (Inl e, b1, [Called (AllTextContents l) False]))"

definition outcome :: "(thrown + 'a) \<times> 'b \<times> event list \<Rightarrow> thrown + 'a" where
  "outcome r = fst r"

definition events :: "(thrown + 'a) \<times> 'b \<times> event list \<Rightarrow> event list" where
  "events r = snd (snd r)"

section \<open>BasePage\<close>

definition navigate :: "'b driver \<Rightarrow> string \<Rightarrow> (unit, 'b) io" where
  "navigate d u = issue d (Goto u)"

definition getLocator :: "selector \<Rightarrow> locator" where
  "getLocator sel = Locator sel"

text \<open>The template literals of the BasePage methods: the line written with
  \<^verbatim>\<open>console.error\<close> and the message of the \<^verbatim>\<open>Error\<close> thrown, for each method.\<close>

definition waitForElement_line :: "selector \<Rightarrow> thrown \<Rightarrow> string" where
  "waitForElement_line sel error =
     ''Error waiting for element '' @ quoted sel @ '' to be visible: '' @ toString error"

definition waitForElement_message :: "selector \<Rightarrow> nat option \<Rightarrow> thrown \<Rightarrow> string" where
  "waitForElement_message sel timeout error =
     ''Element '' @ quoted sel @ '' not visible within '' @ timeout_or_default timeout
       @ '' timeout: '' @ toString error"

definition assertElementText_line :: "selector \<Rightarrow> thrown \<Rightarrow> string" where
  "assertElementText_line sel error =
     ''Error asserting text for element '' @ quoted sel @ '': '' @ toString error"

definition assertElementText_message ::
  "selector \<Rightarrow> string \<Rightarrow> nat option \<Rightarrow> thrown \<Rightarrow> string" where
  "assertElementText_message sel expected timeout error =
     ''Element '' @ quoted sel @ '' does not have expected text '' @ quoted expected
       @ '' within '' @ timeout_or_default timeout @ '' timeout: '' @ toString error"

definition clickElement_line :: "selector \<Rightarrow> thrown \<Rightarrow> string" where
  "clickElement_line sel error =
     ''Error clicking element '' @ quoted sel @ '': '' @ toString error"

definition clickElement_message :: "selector \<Rightarrow> thrown \<Rightarrow> string" where
  "clickElement_message sel error =
     ''Failed to click element '' @ quoted sel @ '': '' @ toString error"

definition fillField_line :: "selector \<Rightarrow> string \<Rightarrow> thrown \<Rightarrow> string" where
  "fillField_line sel v error =
     ''Error filling field '' @ quoted sel @ '' with value '' @ quoted v @ '': ''
       @ toString error"

definition fillField_message :: "selector \<Rightarrow> string \<Rightarrow> thrown \<Rightarrow> string" where
  "fillField_message sel v error =
     ''Failed to fill field '' @ quoted sel @ '' with value '' @ quoted v @ '': ''
       @ toString error"

definition assertUrlContains_line :: "string \<Rightarrow> string \<Rightarrow> thrown \<Rightarrow> string" where
  "assertUrlContains_line urlSubstring currentUrl error =
     ''Error asserting URL contains '' @ quoted urlSubstring @ ''. Current URL: ''
       @ currentUrl @ ''. Error: '' @ toString error"

definition assertUrlContains_message :: "string \<Rightarrow> string \<Rightarrow> thrown \<Rightarrow> string" where
  "assertUrlContains_message urlSubstring currentUrl error =
     ''URL does not contain '' @ quoted urlSubstring @ ''. Current URL: '' @ currentUrl
       @ ''. Error: '' @ toString error"

definition getAllTextContents_line :: "selector \<Rightarrow> thrown \<Rightarrow> string" where
  "getAllTextContents_line sel error =
     ''Error getting text contents from elements matching '' @ quoted sel @ '': ''
       @ toString error"

definition getAllTextContents_message :: "selector \<Rightarrow> thrown \<Rightarrow> string" where
  "getAllTextContents_message sel error =
     ''Failed to get text contents from elements matching '' @ quoted sel @ '': ''
       @ toString error"

text \<open>The catch block every method but \<^verbatim>\<open>assertUrlContains\<close> has:
  \<^verbatim>\<open>console.error(line); throw new Error(message)\<close>.\<close>

definition log_and_throw :: "string \<Rightarrow> string \<Rightarrow> ('a, 'b) io" where
  "log_and_throw line message = bind_io (console_error line) (\<lambda>_. throw_io (Error message))"

definition waitForElement :: "'b driver \<Rightarrow> selector \<Rightarrow> nat option \<Rightarrow> (locator, 'b) io" where
  "waitForElement d sel timeout =
     try_catch
       (bind_io (issue d (ToBeVisible (getLocator sel) timeout))
          (\<lambda>_. return_io (getLocator sel)))
       (\<lambda>error. log_and_throw (waitForElement_line sel error)
                   (waitForElement_message sel timeout error))"

definition assertElementText ::
  "'b driver \<Rightarrow> selector \<Rightarrow> string \<Rightarrow> nat option \<Rightarrow> (unit, 'b) io" where
  "assertElementText d sel expected timeout =
     try_catch
       (issue d (ToHaveText (getLocator sel) expected timeout))
       (\<lambda>error. log_and_throw (assertElementText_line sel error)
                   (assertElementText_message sel expected timeout error))"

definition clickElement :: "'b driver \<Rightarrow> selector \<Rightarrow> (unit, 'b) io" where
  "clickElement d sel =
     try_catch
       (bind_io (waitForElement d sel None) (\<lambda>l. issue d (Click l)))
       (\<lambda>error. log_and_throw (clickElement_line sel error) (clickElement_message sel error))"

definition fillField :: "'b driver \<Rightarrow> selector \<Rightarrow> string \<Rightarrow> (unit, 'b) io" where
  "fillField d sel v =
     try_catch
       (bind_io (waitForElement d sel None) (\<lambda>l. issue d (Fill l v)))
       (\<lambda>error. log_and_throw (fillField_line sel v error) (fillField_message sel v error))"

text \<open>In \<^verbatim>\<open>assertUrlContains\<close> the regular expression is built inside the \<^verbatim>\<open>try\<close>, and
  the catch block reads \<^verbatim>\<open>page.url()\<close> for its message.\<close>

definition assertUrlContains :: "'b driver \<Rightarrow> string \<Rightarrow> (unit, 'b) io" where
  "assertUrlContains d urlSubstring =
     try_catch
       (case newRegExp d urlSubstring of
          Some e \<Rightarrow> throw_io e
        | None \<Rightarrow> issue d (ToHaveURL (UrlRegExp urlSubstring)))
       (\<lambda>error b.
          log_and_throw (assertUrlContains_line urlSubstring (url d b) error)
            (assertUrlContains_message urlSubstring (url d b) error) b)"

definition getAllTextContents :: "'b driver \<Rightarrow> selector \<Rightarrow> (string list, 'b) io" where
  "getAllTextContents d sel =
     try_catch
       (read_texts d (getLocator sel))
       (\<lambda>error. log_and_throw (getAllTextContents_line sel error)
                   (getAllTextContents_message sel error))"

section \<open>Numbers and the equality matcher\<close>

text \<open>Prices are JavaScript numbers (floating point). They stay abstract: \<open>'n\<close> is the
  type of numbers, equality on it stands for the equality the matcher \<^verbatim>\<open>toEqual\<close> uses on
  numbers, and the two library functions the page objects call on numbers are
  parameters.\<close>

record 'n number_ops =
  parseFloat :: "string \<Rightarrow> 'n"
  toFixed :: "'n \<Rightarrow> nat \<Rightarrow> string"

text \<open>An entry of the fixture \<^verbatim>\<open>products\<close>, as far as the page objects read it.\<close>

record 'n product =
  name :: string
  price :: 'n
  description :: string

text \<open>\<^verbatim>\<open>expect(received).toEqual(expected)\<close> on two arrays of strings or of numbers: it
  passes when the arrays are equal and throws otherwise (the text of the matcher's message
  is the library's and is abbreviated here). It reads no page, so it leaves no event.\<close>

definition toEqual :: "'a list \<Rightarrow> 'a list \<Rightarrow> (unit, 'b) io" where
  "toEqual received expected =
     (if received = expected then return_io ()
      else throw_io (Thrown ''Error'' ''expect(received).toEqual(expected)''))"

section \<open>LoginPage\<close>

abbreviation loginLogoSelector :: selector where "loginLogoSelector \<equiv> ''.login_logo''"
abbreviation usernameSelector :: selector where "usernameSelector \<equiv> ''#user-name''"
abbreviation passwordSelector :: selector where "passwordSelector \<equiv> ''#password''"
abbreviation loginButtonSelector :: selector where "loginButtonSelector \<equiv> ''#login-button''"
abbreviation loginErrorSelector :: selector where
  "loginErrorSelector \<equiv> ''[data-test='' @ quoted ''error'' @ '']''"

definition LoginPage_navigate :: "'b driver \<Rightarrow> (unit, 'b) io" where
  "LoginPage_navigate d = navigate d ''/''"

definition LoginPage_assertLoginPage :: "'b driver \<Rightarrow> (unit, 'b) io" where
  "LoginPage_assertLoginPage d =
     bind_io (waitForElement d loginLogoSelector None)
       (\<lambda>_. assertElementText d loginLogoSelector ''Swag Labs'' None)"

definition LoginPage_login :: "'b driver \<Rightarrow> string \<Rightarrow> string \<Rightarrow> (unit, 'b) io" where
  "LoginPage_login d username password =
     bind_io (fillField d usernameSelector username)
       (\<lambda>_. bind_io (fillField d passwordSelector password)
          (\<lambda>_. clickElement d loginButtonSelector))"

definition LoginPage_assertLoginSuccess :: "'b driver \<Rightarrow> (unit, 'b) io" where
  "LoginPage_assertLoginSuccess d = assertUrlContains d ''inventory''"

definition LoginPage_assertLoginError :: "'b driver \<Rightarrow> string \<Rightarrow> (unit, 'b) io" where
  "LoginPage_assertLoginError d message =
     bind_io (waitForElement d loginErrorSelector None)
       (\<lambda>_. assertElementText d loginErrorSelector message None)"

section \<open>InventoryPage\<close>

abbreviation titleSelector :: selector where "titleSelector \<equiv> ''.title''"
abbreviation itemNameSelector :: selector where "itemNameSelector \<equiv> ''.inventory_item_name''"
abbreviation searchInputSelector :: selector where "searchInputSelector \<equiv> ''#search_container''"
abbreviation sortDropdownSelector :: selector where
  "sortDropdownSelector \<equiv> ''.product_sort_container''"
abbreviation itemPriceSelector :: selector where "itemPriceSelector \<equiv> ''.inventory_item_price''"
abbreviation backToProductsButtonSelector :: selector where
  "backToProductsButtonSelector \<equiv> ''#back-to-products''"
abbreviation itemDetailsNameSelector :: selector where
  "itemDetailsNameSelector \<equiv> ''.inventory_details_name''"
abbreviation itemDetailsDescSelector :: selector where
  "itemDetailsDescSelector \<equiv> ''.inventory_details_desc''"
abbreviation itemDetailsPriceSelector :: selector where
  "itemDetailsPriceSelector \<equiv> ''.inventory_details_price''"
abbreviation itemDescriptionSelector :: selector where
  "itemDescriptionSelector \<equiv> ''.inventory_item_desc''"

text \<open>\<^verbatim>\<open>`.inventory_item_name:has-text("${itemName}")`\<close>\<close>

definition itemNameHasText :: "string \<Rightarrow> selector" where
  "itemNameHasText itemName = ''.inventory_item_name:has-text('' @ quoted itemName @ '')''"

definition InventoryPage_assertInventoryPage :: "'b driver \<Rightarrow> (unit, 'b) io" where
  "InventoryPage_assertInventoryPage d = assertElementText d titleSelector ''Products'' None"

definition InventoryPage_searchItemExistsInInventory ::
  "'b driver \<Rightarrow> string \<Rightarrow> (unit, 'b) io" where
  "InventoryPage_searchItemExistsInInventory d itemName =
     bind_io (waitForElement d (itemNameHasText itemName) None) (\<lambda>_. return_io ())"

definition InventoryPage_searchItem :: "'b driver \<Rightarrow> string \<Rightarrow> (unit, 'b) io" where
  "InventoryPage_searchItem d itemName =
     bind_io (waitForElement d searchInputSelector None)
       (\<lambda>searchInput. bind_io (issue d (Fill searchInput itemName))
          (\<lambda>_. issue d (Press searchInput ''Enter'')))"

definition InventoryPage_assertItemInSearchResults ::
  "'b driver \<Rightarrow> string \<Rightarrow> (unit, 'b) io" where
  "InventoryPage_assertItemInSearchResults d itemName =
     bind_io (waitForElement d (itemNameHasText itemName) None) (\<lambda>_. return_io ())"

definition InventoryPage_assertItemNotInSearchResults ::
  "'b driver \<Rightarrow> string \<Rightarrow> (unit, 'b) io" where
  "InventoryPage_assertItemNotInSearchResults d itemName =
     issue d (NotToBeVisible (getLocator (itemNameHasText itemName)))"

definition InventoryPage_selectProductSortOption ::
  "'b driver \<Rightarrow> string \<Rightarrow> (unit, 'b) io" where
  "InventoryPage_selectProductSortOption d sortOption =
     bind_io (waitForElement d sortDropdownSelector None)
       (\<lambda>sortDropdown. issue d (SelectOption sortDropdown sortOption))"

definition InventoryPage_verifyFirstItemInList :: "'b driver \<Rightarrow> string \<Rightarrow> (unit, 'b) io" where
  "InventoryPage_verifyFirstItemInList d itemName =
     issue d (ToHaveText (First (getLocator itemNameSelector)) itemName None)"

definition InventoryPage_verifyFirstItemPrice ::
  "'b driver \<Rightarrow> 'n number_ops \<Rightarrow> 'n \<Rightarrow> (unit, 'b) io" where
  "InventoryPage_verifyFirstItemPrice d ops p =
     issue d (ToHaveText (First (getLocator itemPriceSelector)) (''$'' @ toFixed ops p 2) None)"

definition InventoryPage_backToProducts :: "'b driver \<Rightarrow> (unit, 'b) io" where
  "InventoryPage_backToProducts d = clickElement d backToProductsButtonSelector"

definition InventoryPage_clickOnInventoryItem :: "'b driver \<Rightarrow> string \<Rightarrow> (unit, 'b) io" where
  "InventoryPage_clickOnInventoryItem d itemName = clickElement d (itemNameHasText itemName)"

definition InventoryPage_verifyItemDetails ::
  "'b driver \<Rightarrow> 'n number_ops \<Rightarrow> string \<Rightarrow> string \<Rightarrow> 'n \<Rightarrow> (unit, 'b) io" where
  "InventoryPage_verifyItemDetails d ops itemName itemDescription itemPrice =
     bind_io (assertElementText d itemDetailsNameSelector itemName None)
       (\<lambda>_. bind_io (assertElementText d itemDetailsDescSelector itemDescription None)
          (\<lambda>_. assertElementText d itemDetailsPriceSelector
                  (''$'' @ toFixed ops itemPrice 2) None))"

definition InventoryPage_verifyItemDescriptions ::
  "'b driver \<Rightarrow> ('n, 'x) product_scheme list \<Rightarrow> (unit, 'b) io" where
  "InventoryPage_verifyItemDescriptions d expectedItems =
     bind_io (getAllTextContents d itemNameSelector)
       (\<lambda>itemNames. bind_io (getAllTextContents d itemDescriptionSelector)
          (\<lambda>itemDescriptions. bind_io (toEqual itemNames (map name expectedItems))
             (\<lambda>_. toEqual itemDescriptions (map description expectedItems))))"

text \<open>\<^verbatim>\<open>price.replace('$', '')\<close> with a string pattern removes the first \<^verbatim>\<open>$\<close> only:
  \<open>remove1\<close>.\<close>

definition InventoryPage_verifyItemPrices ::
  "'b driver \<Rightarrow> 'n number_ops \<Rightarrow> ('n, 'x) product_scheme list \<Rightarrow> (unit, 'b) io" where
  "InventoryPage_verifyItemPrices d ops expectedItems =
     bind_io (getAllTextContents d itemNameSelector)
       (\<lambda>itemNames. bind_io (getAllTextContents d itemPriceSelector)
          (\<lambda>itemPrices.
             let formattedPrices = map (\<lambda>p. parseFloat ops (remove1 (CHR ''$'') p)) itemPrices
             in bind_io (toEqual itemNames (map name expectedItems))
                  (\<lambda>_. toEqual formattedPrices (map price expectedItems))))"

text \<open>The variant of \<^verbatim>\<open>selectProductSortOption\<close> in the class that does not extend
  BasePage.\<close>

definition Simple_InventoryPage_selectProductSortOption ::
  "'b driver \<Rightarrow> string \<Rightarrow> (unit, 'b) io" where
  "Simple_InventoryPage_selectProductSortOption d sortOption =
     bind_io (issue d (ToBeVisible (Locator sortDropdownSelector) None))
       (\<lambda>_. issue d (SelectOption (Locator sortDropdownSelector) sortOption))"

section \<open>CartPage\<close>

abbreviation cartBadgeSelector :: selector where "cartBadgeSelector \<equiv> ''.shopping_cart_badge''"
abbreviation cartLinkSelector :: selector where "cartLinkSelector \<equiv> ''.shopping_cart_link''"
abbreviation cartItemsSelector :: selector where "cartItemsSelector \<equiv> ''.cart_item''"
abbreviation checkoutButtonSelector :: selector where "checkoutButtonSelector \<equiv> ''#checkout''"

text \<open>\<^verbatim>\<open>itemName.toLowerCase()\<close> maps each character by the Unicode lower case
  mapping. Between U+0000 and U+00FF the capitals are A to Z (U+0041 to U+005A) and
  U+00C0 to U+00DE without the multiplication sign U+00D7; the small letter of each has
  the code 0x20 higher. Every other character of the range is its own image (also U+00DF
  and U+00FF, which are small letters), and no mapping of the range depends on the
  neighbours of a character or changes the length of the string.\<close>

definition toLowerCase_char :: "char \<Rightarrow> char" where
  "toLowerCase_char c =
     (let n = of_char c :: nat
      in if (0x41 \<le> n \<and> n \<le> 0x5A) \<or> (0xC0 \<le> n \<and> n \<le> 0xDE \<and> n \<noteq> 0xD7)
         then char_of (n + 0x20) else c)"

definition toLowerCase :: "string \<Rightarrow> string" where
  "toLowerCase s = map toLowerCase_char s"

text \<open>The class \<^verbatim>\<open>\s\<close> of a regular expression is the white space and the line
  terminators of the language. Between U+0000 and U+00FF these are tab, line feed,
  vertical tab, form feed, carriage return, space and the no-break space U+00A0.\<close>

definition isWhitespace :: "char \<Rightarrow> bool" where
  "isWhitespace c \<longleftrightarrow>
     c \<in> set [CHR 0x09, CHR 0x0A, CHR 0x0B, CHR 0x0C, CHR 0x0D, CHR 0x20, CHR 0xA0]"

text \<open>\<^verbatim>\<open>s.replace(/\s+/g, '-')\<close>: the scan of a global replace. At a white space
  character the greedy \<^verbatim>\<open>\s+\<close> takes every white space character that follows, one
  hyphen is written, and the scan goes on behind the match; any other character is
  copied.\<close>

function replaceWhitespace :: "string \<Rightarrow> string" where
  "replaceWhitespace [] = []"
| "replaceWhitespace (c # cs) =
     (if isWhitespace c then CHR ''-'' # replaceWhitespace (dropWhile isWhitespace cs)
      else c # replaceWhitespace cs)"
  by pat_completeness auto
termination
  by (relation "measure length") (auto simp: le_imp_less_Suc length_dropWhile_le)

text \<open>\<^verbatim>\<open>const formattedItemName = itemName.toLowerCase().replace(/\s+/g, '-')\<close> and
  \<^verbatim>\<open>`[data-test="remove-${formattedItemName}"]`\<close>\<close>

definition formattedItemName :: "string \<Rightarrow> string" where
  "formattedItemName itemName = replaceWhitespace (toLowerCase itemName)"

definition removeButtonSelector :: "string \<Rightarrow> selector" where
  "removeButtonSelector itemName =
     ''[data-test='' @ quoted (''remove-'' @ formattedItemName itemName) @ '']''"

text \<open>\<^verbatim>\<open>`.inventory_item:has-text("${itemName}")`\<close>\<close>

definition inventoryItemHasText :: "string \<Rightarrow> selector" where
  "inventoryItemHasText itemName = ''.inventory_item:has-text('' @ quoted itemName @ '')''"

definition CartPage_assertCartPage :: "'b driver \<Rightarrow> (unit, 'b) io" where
  "CartPage_assertCartPage d = assertElementText d titleSelector ''Your Cart'' None"

definition CartPage_assertCartItemCount :: "'b driver \<Rightarrow> nat \<Rightarrow> (unit, 'b) io" where
  "CartPage_assertCartItemCount d expectedItemCount =
     issue d (ToHaveText (getLocator cartBadgeSelector) (show_nat expectedItemCount)
                (Some 10000))"

definition CartPage_addItemToCart :: "'b driver \<Rightarrow> string \<Rightarrow> (unit, 'b) io" where
  "CartPage_addItemToCart d itemName =
     bind_io (waitForElement d (inventoryItemHasText itemName) None)
       (\<lambda>item.
          let addToCartButton = Sub item (''button:has-text('' @ quoted ''Add to cart'' @ '')'')
          in bind_io (issue d (ToBeVisible addToCartButton None))
               (\<lambda>_. issue d (Click addToCartButton)))"

definition CartPage_goToCart :: "'b driver \<Rightarrow> (unit, 'b) io" where
  "CartPage_goToCart d = clickElement d cartLinkSelector"

definition CartPage_assertItemAdded :: "'b driver \<Rightarrow> string \<Rightarrow> (unit, 'b) io" where
  "CartPage_assertItemAdded d itemName =
     bind_io (CartPage_goToCart d)
       (\<lambda>_. bind_io (waitForElement d (itemNameHasText itemName) (Some 10000))
          (\<lambda>cartItem. issue d (ToHaveText cartItem itemName None)))"

definition CartPage_removeItem :: "'b driver \<Rightarrow> string \<Rightarrow> (unit, 'b) io" where
  "CartPage_removeItem d itemName =
     bind_io (waitForElement d (removeButtonSelector itemName) None)
       (\<lambda>removeButton. bind_io (issue d (Click removeButton))
          (\<lambda>_. issue d (NotToBeVisible (getLocator (removeButtonSelector itemName)))))"

definition CartPage_assertCartIsEmpty :: "'b driver \<Rightarrow> (unit, 'b) io" where
  "CartPage_assertCartIsEmpty d = issue d (ToHaveCount (getLocator cartItemsSelector) 0)"

definition CartPage_assertItemRemoved :: "'b driver \<Rightarrow> string \<Rightarrow> (unit, 'b) io" where
  "CartPage_assertItemRemoved d itemName =
     bind_io (CartPage_goToCart d)
       (\<lambda>_. bind_io (issue d (NotToBeVisible (getLocator (itemNameHasText itemName))))
          (\<lambda>_. issue d (ToHaveCount (getLocator (itemNameHasText itemName)) 0)))"

definition CartPage_proceedToCheckout :: "'b driver \<Rightarrow> (unit, 'b) io" where
  "CartPage_proceedToCheckout d = clickElement d checkoutButtonSelector"

text \<open>The variant of \<^verbatim>\<open>removeItem\<close> in the class that does not extend BasePage.\<close>

definition Simple_CartPage_removeItem :: "'b driver \<Rightarrow> string \<Rightarrow> (unit, 'b) io" where
  "Simple_CartPage_removeItem d itemName =
     bind_io (issue d (ToBeVisible (Locator (removeButtonSelector itemName)) None))
       (\<lambda>_. bind_io (issue d (Click (Locator (removeButtonSelector itemName))))
          (\<lambda>_. issue d (NotToBeVisible (Locator (removeButtonSelector itemName)))))"

section \<open>CheckoutPage\<close>

abbreviation firstNameSelector :: selector where "firstNameSelector \<equiv> ''#first-name''"
abbreviation lastNameSelector :: selector where "lastNameSelector \<equiv> ''#last-name''"
abbreviation zipCodeSelector :: selector where "zipCodeSelector \<equiv> ''#postal-code''"
abbreviation continueButtonSelector :: selector where "continueButtonSelector \<equiv> ''#continue''"
abbreviation finishButtonSelector :: selector where "finishButtonSelector \<equiv> ''#finish''"
abbreviation completeHeaderSelector :: selector where
  "completeHeaderSelector \<equiv> ''.complete-header''"
abbreviation completeTextSelector :: selector where "completeTextSelector \<equiv> ''.complete-text''"
abbreviation errorMessageSelector :: selector where
  "errorMessageSelector \<equiv> ''.error-message-container''"
abbreviation itemQuantitySelector :: selector where "itemQuantitySelector \<equiv> ''.cart_quantity''"

definition CheckoutPage_assertCheckoutPage :: "'b driver \<Rightarrow> (unit, 'b) io" where
  "CheckoutPage_assertCheckoutPage d b =
     (let currentUrl = url d b
      in bind_io (issue d (ToHaveURL (UrlString currentUrl)))
           (\<lambda>_. assertElementText d titleSelector ''Checkout: Your Information'' None) b)"

definition CheckoutPage_assertOverviewPage :: "'b driver \<Rightarrow> (unit, 'b) io" where
  "CheckoutPage_assertOverviewPage d b =
     (let currentUrl = url d b
      in bind_io (issue d (ToHaveURL (UrlString currentUrl)))
           (\<lambda>_. assertElementText d titleSelector ''Checkout: Overview'' None) b)"

definition CheckoutPage_fillCheckoutInfo ::
  "'b driver \<Rightarrow> string \<Rightarrow> string \<Rightarrow> string \<Rightarrow> (unit, 'b) io" where
  "CheckoutPage_fillCheckoutInfo d firstName lastName zipCode =
     bind_io (fillField d firstNameSelector firstName)
       (\<lambda>_. bind_io (fillField d lastNameSelector lastName)
          (\<lambda>_. bind_io (fillField d zipCodeSelector zipCode)
             (\<lambda>_. clickElement d continueButtonSelector)))"

definition CheckoutPage_finishCheckout :: "'b driver \<Rightarrow> (unit, 'b) io" where
  "CheckoutPage_finishCheckout d = clickElement d finishButtonSelector"

definition CheckoutPage_assertOrderConfirmation :: "'b driver \<Rightarrow> (unit, 'b) io" where
  "CheckoutPage_assertOrderConfirmation d =
     bind_io (assertElementText d completeHeaderSelector ''Thank you for your order!'' None)
       (\<lambda>_. assertElementText d completeTextSelector
          ''Your order has been dispatched, and will arrive just as fast as the pony can get there!''
          None)"

definition CheckoutPage_assertErrorMessage :: "'b driver \<Rightarrow> string \<Rightarrow> (unit, 'b) io" where
  "CheckoutPage_assertErrorMessage d message =
     assertElementText d errorMessageSelector message None"

definition CheckoutPage_assertOrderSummary ::
  "'b driver \<Rightarrow> 'n number_ops \<Rightarrow> string \<Rightarrow> 'n \<Rightarrow> string \<Rightarrow> (unit, 'b) io" where
  "CheckoutPage_assertOrderSummary d ops itemName itemPrice itemQuantity =
     bind_io (assertElementText d itemNameSelector itemName None)
       (\<lambda>_. bind_io (assertElementText d itemPriceSelector (''$'' @ toFixed ops itemPrice 2) None)
          (\<lambda>_. assertElementText d itemQuantitySelector itemQuantity None))"

section \<open>Every method of the page objects\<close>

text \<open>A call of a method of one of the four page objects derived from BasePage, with its
  arguments, and what the call does.\<close>

datatype 'n method_call =
    Login_navigate
  | Login_assertLoginPage
  | Login_login string string
  | Login_assertLoginSuccess
  | Login_assertLoginError string
  | Inventory_assertInventoryPage
  | Inventory_searchItemExistsInInventory string
  | Inventory_searchItem string
  | Inventory_assertItemInSearchResults string
  | Inventory_assertItemNotInSearchResults string
  | Inventory_selectProductSortOption string
  | Inventory_verifyFirstItemInList string
  | Inventory_verifyFirstItemPrice 'n
  | Inventory_backToProducts
  | Inventory_clickOnInventoryItem string
  | Inventory_verifyItemDetails string string 'n
  | Inventory_verifyItemDescriptions "'n product list"
  | Inventory_verifyItemPrices "'n product list"
  | Cart_assertCartPage
  | Cart_assertCartItemCount nat
  | Cart_addItemToCart string
  | Cart_goToCart
  | Cart_assertItemAdded string
  | Cart_removeItem string
  | Cart_assertCartIsEmpty
  | Cart_assertItemRemoved string
  | Cart_proceedToCheckout
  | Checkout_assertCheckoutPage
  | Checkout_assertOverviewPage
  | Checkout_fillCheckoutInfo string string string
  | Checkout_finishCheckout
  | Checkout_assertOrderConfirmation
  | Checkout_assertErrorMessage string
  | Checkout_assertOrderSummary string 'n string

fun run :: "'b driver \<Rightarrow> 'n number_ops \<Rightarrow> 'n method_call \<Rightarrow> (unit, 'b) io" where
  "run d ops Login_navigate = LoginPage_navigate d"
| "run d ops Login_assertLoginPage = LoginPage_assertLoginPage d"
| "run d ops (Login_login u p) = LoginPage_login d u p"
| "run d ops Login_assertLoginSuccess = LoginPage_assertLoginSuccess d"
| "run d ops (Login_assertLoginError m) = LoginPage_assertLoginError d m"
| "run d ops Inventory_assertInventoryPage = InventoryPage_assertInventoryPage d"
| "run d ops (Inventory_searchItemExistsInInventory i) =
     InventoryPage_searchItemExistsInInventory d i"
| "run d ops (Inventory_searchItem i) = InventoryPage_searchItem d i"
| "run d ops (Inventory_assertItemInSearchResults i) =
     InventoryPage_assertItemInSearchResults d i"
| "run d ops (Inventory_assertItemNotInSearchResults i) =
     InventoryPage_assertItemNotInSearchResults d i"
| "run d ops (Inventory_selectProductSortOption s) = InventoryPage_selectProductSortOption d s"
| "run d ops (Inventory_verifyFirstItemInList i) = InventoryPage_verifyFirstItemInList d i"
| "run d ops (Inventory_verifyFirstItemPrice p) = InventoryPage_verifyFirstItemPrice d ops p"
| "run d ops Inventory_backToProducts = InventoryPage_backToProducts d"
| "run d ops (Inventory_clickOnInventoryItem i) = InventoryPage_clickOnInventoryItem d i"
| "run d ops (Inventory_verifyItemDetails i ds p) = InventoryPage_verifyItemDetails d ops i ds p"
| "run d ops (Inventory_verifyItemDescriptions xs) = InventoryPage_verifyItemDescriptions d xs"
| "run d ops (Inventory_verifyItemPrices xs) = InventoryPage_verifyItemPrices d ops xs"
| "run d ops Cart_assertCartPage = CartPage_assertCartPage d"
| "run d ops (Cart_assertCartItemCount n) = CartPage_assertCartItemCount d n"
| "run d ops (Cart_addItemToCart i) = CartPage_addItemToCart d i"
| "run d ops Cart_goToCart = CartPage_goToCart d"
| "run d ops (Cart_assertItemAdded i) = CartPage_assertItemAdded d i"
| "run d ops (Cart_removeItem i) = CartPage_removeItem d i"
| "run d ops Cart_assertCartIsEmpty = CartPage_assertCartIsEmpty d"
| "run d ops (Cart_assertItemRemoved i) = CartPage_assertItemRemoved d i"
| "run d ops Cart_proceedToCheckout = CartPage_proceedToCheckout d"
| "run d ops Checkout_assertCheckoutPage = CheckoutPage_assertCheckoutPage d"
| "run d ops Checkout_assertOverviewPage = CheckoutPage_assertOverviewPage d"
| "run d ops (Checkout_fillCheckoutInfo f l z) = CheckoutPage_fillCheckoutInfo d f l z"
| "run d ops Checkout_finishCheckout = CheckoutPage_finishCheckout d"
| "run d ops Checkout_assertOrderConfirmation = CheckoutPage_assertOrderConfirmation d"
| "run d ops (Checkout_assertErrorMessage m) = CheckoutPage_assertErrorMessage d m"
| "run d ops (Checkout_assertOrderSummary i p q) = CheckoutPage_assertOrderSummary d ops i p q"

text \<open>The calls a method passes an explicit timeout to: the badge assertion of
  \<^verbatim>\<open>assertCartItemCount\<close> and the visibility wait of \<^verbatim>\<open>assertItemAdded\<close>.\<close>

fun explicit_timeout :: "'n method_call \<Rightarrow> call set" where
  "explicit_timeout (Cart_assertCartItemCount n) =
     {ToHaveText (Locator cartBadgeSelector) (show_nat n) (Some 10000)}"
| "explicit_timeout (Cart_assertItemAdded i) =
     {ToBeVisible (Locator (itemNameHasText i)) (Some 10000)}"
| "explicit_timeout m = {}"

section \<open>Reading the events of a call\<close>

text \<open>The driver calls among the events, in order.\<close>

fun calls :: "event list \<Rightarrow> call list" where
  "calls [] = []"
| "calls (Called c ok # es) = c # calls es"
| "calls (ConsoleError line # es) = calls es"

text \<open>The element a call changes (a click, a fill, a key press, a selection), and the
  element a call changes or reads (also a text or count assertion and
  \<^verbatim>\<open>allTextContents\<close>).\<close>

fun acted :: "call \<Rightarrow> locator option" where
  "acted (Click l) = Some l"
| "acted (Fill l v) = Some l"
| "acted (Press l k) = Some l"
| "acted (SelectOption l v) = Some l"
| "acted c = None"

fun touched :: "call \<Rightarrow> locator option" where
  "touched (ToHaveText l s t) = Some l"
| "touched (ToHaveCount l n) = Some l"
| "touched (AllTextContents l) = Some l"
| "touched c = acted c"

text \<open>The locator an event has shown to be visible: a visibility wait that succeeded.\<close>

fun shown :: "event \<Rightarrow> locator list" where
  "shown (Called (ToBeVisible l t) True) = [l]"
| "shown e = []"

text \<open>Wait-then-act over the events of one call: every call that has a target (under
  \<open>target\<close>) comes after a successful visibility wait on that same locator; \<open>seen\<close> are
  the locators already waited for.\<close>

fun waited_before :: "(call \<Rightarrow> locator option) \<Rightarrow> locator list \<Rightarrow> event list \<Rightarrow> bool" where
  "waited_before target seen [] = True"
| "waited_before target seen (ConsoleError line # es) = waited_before target seen es"
| "waited_before target seen (Called c ok # es) =
     ((case target c of None \<Rightarrow> True | Some l \<Rightarrow> l \<in> set seen) \<and>
      waited_before target (shown (Called c ok) @ seen) es)"

text \<open>The timeout a call passes to the driver, and the time the driver then waits, given
  its configured default (the configuration is not among the sources, so the default is a
  parameter).\<close>

fun timeout_of :: "call \<Rightarrow> nat option" where
  "timeout_of (ToBeVisible l t) = t"
| "timeout_of (ToHaveText l s t) = t"
| "timeout_of c = None"

definition effective_timeout :: "nat \<Rightarrow> nat option \<Rightarrow> nat" where
  "effective_timeout defaultTimeout t = (case t of None \<Rightarrow> defaultTimeout | Some ms \<Rightarrow> ms)"

fun is_assertion :: "call \<Rightarrow> bool" where
  "is_assertion (ToBeVisible l t) = True"
| "is_assertion (NotToBeVisible l) = True"
| "is_assertion (ToHaveText l s t) = True"
| "is_assertion (ToHaveCount l n) = True"
| "is_assertion (ToHaveURL m) = True"
| "is_assertion c = False"

text \<open>Properties of every run of a computation: wait-then-act holds of its events, and
  it issues calls of a given set only.\<close>

definition wait_first :: "(call \<Rightarrow> locator option) \<Rightarrow> locator list \<Rightarrow> ('a, 'b) io \<Rightarrow> bool" where
  "wait_first target seen m \<longleftrightarrow> (\<forall>b. waited_before target seen (events (m b)))"

definition calls_within :: "call set \<Rightarrow> ('a, 'b) io \<Rightarrow> bool" where
  "calls_within S m \<longleftrightarrow> (\<forall>b. set (calls (events (m b))) \<subseteq> S)"

text \<open>A computation issues a prefix of the calls \<open>cs\<close>, in that order, and all of them
  when it returns a value.\<close>

definition issues_in_order :: "call list \<Rightarrow> ('a, 'b) io \<Rightarrow> bool" where
  "issues_in_order cs m \<longleftrightarrow>
     (\<forall>b. (\<exists>n. calls (events (m b)) = take n cs) \<and>
          ((\<exists>a. outcome (m b) = Inr a) \<longrightarrow> calls (events (m b)) = cs))"

section \<open>The selector of the remove control, in the words of its description\<close>

text \<open>The maximal runs of a list: consecutive elements on which \<open>P\<close> has the same
  value.\<close>

fun runs :: "('a \<Rightarrow> bool) \<Rightarrow> 'a list \<Rightarrow> 'a list list" where
  "runs P [] = []"
| "runs P (x # xs) =
     (case runs P xs of
        [] \<Rightarrow> [[x]]
      | r # rs \<Rightarrow> if P x = P (hd r) then (x # r) # rs else [x] # r # rs)"

text \<open>Each maximal run of white space replaced by a single hyphen, every other run
  kept.\<close>

definition hyphenate_runs :: "string \<Rightarrow> string" where
  "hyphenate_runs s =
     concat (map (\<lambda>r. if isWhitespace (hd r) then ''-'' else r) (runs isWhitespace s))"

section \<open>A simulated shop, for running the page objects\<close>

text \<open>A small browser to run the page objects on: a page is its address, the locators
  that resolve to a visible element, the text contents found under a locator in document
  order, the values typed into its fields, the options (value and label) of its sort
  dropdown and the locators of its disabled controls. A wait for an element that is not
  visible times out, and so does an action on one that is not visible or is disabled.\<close>

record page =
  pg_url :: string
  pg_visible :: "locator list"
  pg_texts :: "(locator \<times> string list) list"
  pg_fields :: "(locator \<times> string) list"
  pg_options :: "(string \<times> string) list"
  pg_disabled :: "locator list"

definition timedOut :: thrown where
  "timedOut = Thrown ''TimeoutError'' ''Timeout exceeded.''"

fun texts_of :: "page \<Rightarrow> locator \<Rightarrow> string list" where
  "texts_of p (First l) = take 1 (texts_of p l)"
| "texts_of p l = (case map_of (pg_texts p) l of Some xs \<Rightarrow> xs | None \<Rightarrow> [])"

definition field_value :: "page \<Rightarrow> locator \<Rightarrow> string" where
  "field_value p l = (case map_of (pg_fields p) l of Some v \<Rightarrow> v | None \<Rightarrow> [])"

fun contains :: "string \<Rightarrow> string \<Rightarrow> bool" where
  "contains xs [] = (xs = [])"
| "contains xs (y # ys) = (take (length xs) (y # ys) = xs \<or> contains xs ys)"

text \<open>Modelled from the spec: the validation of the checkout information form, which is
  part of the application under test and not of the repository. The fields are checked in
  the order first name, last name, postal code, and the first missing one decides the
  message (the messages are those the tests of the repository expect).\<close>

definition validationMessage :: "string \<Rightarrow> string \<Rightarrow> string \<Rightarrow> string option" where
  "validationMessage firstName lastName postalCode =
     (if firstName = [] then Some ''Error: First Name is required''
      else if lastName = [] then Some ''Error: Last Name is required''
      else if postalCode = [] then Some ''Error: Postal Code is required''
      else None)"

text \<open>Modelled from the spec: what the Continue button of the form does. With a missing
  field the form stays and shows the message; otherwise the overview step opens.\<close>

definition submitCheckoutForm :: "page \<Rightarrow> page" where
  "submitCheckoutForm p =
     (case validationMessage (field_value p (Locator firstNameSelector))
             (field_value p (Locator lastNameSelector))
             (field_value p (Locator zipCodeSelector)) of
        Some m \<Rightarrow>
          p\<lparr>pg_visible := Locator errorMessageSelector # pg_visible p,
            pg_texts := (Locator errorMessageSelector, [m]) # pg_texts p\<rparr>
      | None \<Rightarrow>
          p\<lparr>pg_url := ''https://www.saucedemo.com/checkout-step-two.html'',
            pg_texts := (Locator titleSelector, [''Checkout: Overview'']) # pg_texts p\<rparr>)"

definition on_visible :: "page \<Rightarrow> locator \<Rightarrow> page \<Rightarrow> thrown option \<times> page" where
  "on_visible p l p' =
     (if l \<in> set (pg_visible p) \<and> l \<notin> set (pg_disabled p) then (None, p')
      else (Some timedOut, p))"

definition check :: "bool \<Rightarrow> page \<Rightarrow> thrown option \<times> page" where
  "check ok p = (if ok then (None, p) else (Some timedOut, p))"

fun shop_perform :: "call \<Rightarrow> page \<Rightarrow> thrown option \<times> page" where
  "shop_perform (Goto u) p = (None, p\<lparr>pg_url := u\<rparr>)"
| "shop_perform (ToBeVisible l t) p = check (l \<in> set (pg_visible p)) p"
| "shop_perform (NotToBeVisible l) p = check (l \<notin> set (pg_visible p)) p"
| "shop_perform (ToHaveText l s t) p = check (texts_of p l = [s]) p"
| "shop_perform (ToHaveCount l n) p = check (length (texts_of p l) = n) p"
| "shop_perform (ToHaveURL (UrlString u)) p = check (pg_url p = u) p"
| "shop_perform (ToHaveURL (UrlRegExp r)) p = check (contains r (pg_url p)) p"
| "shop_perform (Click l) p =
     on_visible p l (if l = Locator continueButtonSelector then submitCheckoutForm p else p)"
| "shop_perform (Fill l v) p = on_visible p l (p\<lparr>pg_fields := (l, v) # pg_fields p\<rparr>)"
| "shop_perform (Press l k) p = on_visible p l p"
| "shop_perform (SelectOption l v) p =
     (if v \<in> set (map fst (pg_options p)) \<or> v \<in> set (map snd (pg_options p))
      then on_visible p l p else (Some timedOut, p))"
| "shop_perform (AllTextContents l) p = (None, p)"

definition shop :: "page driver" where
  "shop =
     \<lparr>perform = shop_perform,
      allTextContents = (\<lambda>l p. (Inr (texts_of p l), p)),
      url = pg_url,
      newRegExp = (\<lambda>source. if source = ''(''
         then Some (Thrown ''SyntaxError'' ''Invalid regular expression: /(/: Unterminated group'')
         else None)\<rparr>"

text \<open>A driver on which every operation fails, as after the browser was closed.\<close>

definition closed :: thrown where
  "closed = Thrown ''Error'' ''Target page, context or browser has been closed''"

definition closed_browser :: "unit driver" where
  "closed_browser =
     \<lparr>perform = (\<lambda>c b. (Some closed, b)),
      allTextContents = (\<lambda>l b. (Inl closed, b)),
      url = (\<lambda>b. ''about:blank''),
      newRegExp = (\<lambda>source. None)\<rparr>"


text \<open>Pages of the shop: the checkout information form, and the inventory with two
  products.\<close>

definition checkout_form :: page where
  "checkout_form =
     \<lparr>pg_url = ''https://www.saucedemo.com/checkout-step-one.html'',
      pg_visible = [Locator firstNameSelector, Locator lastNameSelector,
                    Locator zipCodeSelector, Locator continueButtonSelector,
                    Locator titleSelector],
      pg_texts = [(Locator titleSelector, [''Checkout: Your Information''])],
      pg_fields = [],
      pg_options = [],
      pg_disabled = []\<rparr>"

definition inventory :: page where
  "inventory =
     \<lparr>pg_url = ''https://www.saucedemo.com/inventory.html'',
      pg_visible = [Locator sortDropdownSelector, Locator titleSelector,
                    Locator cartLinkSelector],
      pg_texts = [(Locator titleSelector, [''Products'']),
                  (Locator itemNameSelector, [''Sauce Labs Backpack'', ''Sauce Labs Bike Light'']),
                  (Locator itemPriceSelector, [''$29.99'', ''$9.99'']),
                  (Locator itemDescriptionSelector, [''carry.allTheThings()'', ''A red light''])],
      pg_fields = [],
      pg_options = [(''az'', ''Name (A to Z)''), (''za'', ''Name (Z to A)''),
                    (''lohi'', ''Price (low to high)''), (''hilo'', ''Price (high to low)'')],
      pg_disabled = []\<rparr>"

text \<open>The checkout form with its Continue button and first name field disabled.\<close>

definition frozen_form :: page where
  "frozen_form =
     checkout_form\<lparr>pg_disabled := [Locator continueButtonSelector, Locator firstNameSelector]\<rparr>"

definition cart_with_backpack :: page where
  "cart_with_backpack =
     \<lparr>pg_url = ''https://www.saucedemo.com/cart.html'',
      pg_visible = [Locator cartLinkSelector, Locator (itemNameHasText ''Sauce Labs Backpack''),
                    Locator titleSelector],
      pg_texts = [(Locator titleSelector, [''Your Cart'']),
                  (Locator (itemNameHasText ''Sauce Labs Backpack''), [''Sauce Labs Backpack'']),
                  (Locator cartBadgeSelector, [''1''])],
      pg_fields = [],
      pg_options = [],
      pg_disabled = []\<rparr>"

text \<open>The same cart with the remove control of the backpack on display.\<close>

definition cart_with_remove_control :: page where
  "cart_with_remove_control =
     cart_with_backpack\<lparr>pg_visible :=
       Locator (''[data-test='' @ quoted ''remove-sauce-labs-backpack'' @ '']'')
         # pg_visible cart_with_backpack\<rparr>"

text \<open>Numbers for running the page objects: an amount is its number of cents.
  \<open>parse_cents\<close> reads the digits of a price text.\<close>

definition digit_value :: "char \<Rightarrow> nat option" where
  "digit_value c = map_of (zip ''0123456789'' [0 ..< 10]) c"

fun parse_cents :: "nat \<Rightarrow> string \<Rightarrow> nat" where
  "parse_cents n [] = n"
| "parse_cents n (c # cs) =
     (case digit_value c of Some k \<Rightarrow> parse_cents (10 * n + k) cs | None \<Rightarrow> parse_cents n cs)"

definition cents :: "nat number_ops" where
  "cents =
     \<lparr>parseFloat = parse_cents 0,
      toFixed = (\<lambda>n k. show_nat (n div 100) @ ''.'' @ show_nat (n mod 100 div 10)
                         @ show_nat (n mod 10))\<rparr>"

text \<open>The two products of the inventory page above, as the fixture would list them.\<close>

definition two_products :: "nat product list" where
  "two_products =
     [\<lparr>name = ''Sauce Labs Backpack'', price = 2999, description = ''carry.allTheThings()''\<rparr>,
      \<lparr>name = ''Sauce Labs Bike Light'', price = 999, description = ''A red light''\<rparr>]"

text \<open>The four sort options the documentation of \<^verbatim>\<open>selectProductSortOption\<close> lists.\<close>

definition sortOptions :: "string list" where
  "sortOptions =
     [''Name (A to Z)'', ''Name (Z to A)'', ''Price (low to high)'', ''Price (high to low)'']"

section \<open>Properties\<close>

subsection \<open>Events of the BasePage methods\<close>

lemmas io_defs = bind_io_def try_catch_def return_io_def throw_io_def console_error_def
  issue_def read_texts_def getLocator_def log_and_throw_def

lemma waitForElement_eq:
  "waitForElement d sel t b =
     (case perform d (ToBeVisible (Locator sel) t) b of
        (None, b1) \<Rightarrow> (Inr (Locator sel), b1, [Called (ToBeVisible (Locator sel) t) True])
      | (Some e, b1) \<Rightarrow>
          (Inl (Error (waitForElement_message sel t e)), b1,
           [Called (ToBeVisible (Locator sel) t) False,
            ConsoleError (waitForElement_line sel e)]))"
  by (simp add: waitForElement_def io_defs split: prod.splits option.splits)




lemma assertElementText_eq:
  "assertElementText d sel x t b =
     (case perform d (ToHaveText (Locator sel) x t) b of
        (None, b1) \<Rightarrow> (Inr (), b1, [Called (ToHaveText (Locator sel) x t) True])
      | (Some e, b1) \<Rightarrow>
          (Inl (Error (assertElementText_message sel x t e)), b1,
           [Called (ToHaveText (Locator sel) x t) False,
            ConsoleError (assertElementText_line sel e)]))"
  by (simp add: assertElementText_def io_defs split: prod.splits option.splits)

lemma clickElement_eq:
  "clickElement d sel b =
     (case perform d (ToBeVisible (Locator sel) None) b of
        (Some e, b1) \<Rightarrow>
          (Inl (Error (clickElement_message sel (Error (waitForElement_message sel None e)))), b1,
           [Called (ToBeVisible (Locator sel) None) False,
            ConsoleError (waitForElement_line sel e),
            ConsoleError (clickElement_line sel (Error (waitForElement_message sel None e)))])
      | (None, b1) \<Rightarrow>
          (case perform d (Click (Locator sel)) b1 of
             (None, b2) \<Rightarrow>
               (Inr (), b2,
                [Called (ToBeVisible (Locator sel) None) True, Called (Click (Locator sel)) True])
           | (Some e, b2) \<Rightarrow>
               (Inl (Error (clickElement_message sel e)), b2,
                [Called (ToBeVisible (Locator sel) None) True, Called (Click (Locator sel)) False,
                 ConsoleError (clickElement_line sel e)])))"
  by (simp add: clickElement_def waitForElement_eq bind_io_def try_catch_def issue_def
        log_and_throw_def console_error_def throw_io_def
      split: prod.splits option.splits)

lemma fillField_eq:
  "fillField d sel v b =
     (case perform d (ToBeVisible (Locator sel) None) b of
        (Some e, b1) \<Rightarrow>
          (Inl (Error (fillField_message sel v (Error (waitForElement_message sel None e)))), b1,
           [Called (ToBeVisible (Locator sel) None) False,
            ConsoleError (waitForElement_line sel e),
            ConsoleError (fillField_line sel v (Error (waitForElement_message sel None e)))])
      | (None, b1) \<Rightarrow>
          (case perform d (Fill (Locator sel) v) b1 of
             (None, b2) \<Rightarrow>
               (Inr (), b2,
                [Called (ToBeVisible (Locator sel) None) True, Called (Fill (Locator sel) v) True])
           | (Some e, b2) \<Rightarrow>
               (Inl (Error (fillField_message sel v e)), b2,
                [Called (ToBeVisible (Locator sel) None) True, Called (Fill (Locator sel) v) False,
                 ConsoleError (fillField_line sel v e)])))"
  by (simp add: fillField_def waitForElement_eq bind_io_def try_catch_def issue_def
        log_and_throw_def console_error_def throw_io_def
      split: prod.splits option.splits)

lemma assertUrlContains_eq:
  "assertUrlContains d u b =
     (case newRegExp d u of
        Some e \<Rightarrow>
          (Inl (Error (assertUrlContains_message u (url d b) e)), b,
           [ConsoleError (assertUrlContains_line u (url d b) e)])
      | None \<Rightarrow>
          (case perform d (ToHaveURL (UrlRegExp u)) b of
             (None, b1) \<Rightarrow> (Inr (), b1, [Called (ToHaveURL (UrlRegExp u)) True])
           | (Some e, b1) \<Rightarrow>
               (Inl (Error (assertUrlContains_message u (url d b1) e)), b1,
                [Called (ToHaveURL (UrlRegExp u)) False,
                 ConsoleError (assertUrlContains_line u (url d b1) e)])))"
  by (simp add: assertUrlContains_def io_defs split: prod.splits option.splits)

lemma getAllTextContents_eq:
  "getAllTextContents d sel b =
     (case allTextContents d (Locator sel) b of
        (Inr xs, b1) \<Rightarrow> (Inr xs, b1, [Called (AllTextContents (Locator sel)) True])
      | (Inl e, b1) \<Rightarrow>
          (Inl (Error (getAllTextContents_message sel e)), b1,
           [Called (AllTextContents (Locator sel)) False,
            ConsoleError (getAllTextContents_line sel e)]))"
  by (simp add: getAllTextContents_def io_defs split: prod.splits sum.splits)

subsection \<open>Rules for wait-then-act\<close>

lemma waited_before_append:
  "waited_before target seen (xs @ ys) \<longleftrightarrow>
     waited_before target seen xs \<and>
     waited_before target (concat (map shown (rev xs)) @ seen) ys"
proof (induction xs arbitrary: seen)
  case Nil
  show ?case by simp
next
  case (Cons e es)
  show ?case by (cases e) (simp_all add: Cons.IH)
qed

lemma waited_before_mono:
  "waited_before target seen es \<Longrightarrow> set seen \<subseteq> set seen' \<Longrightarrow> waited_before target seen' es"
proof (induction es arbitrary: seen seen')
  case Nil
  show ?case by simp
next
  case (Cons e es)
  show ?case
  proof (cases e)
    case (Called c ok)
    have sub: "set (shown (Called c ok) @ seen) \<subseteq> set (shown (Called c ok) @ seen')"
      using Cons.prems(2) by auto
    from Cons.prems(1) Called
    have "waited_before target (shown (Called c ok) @ seen) es" by simp
    from Cons.IH[OF this sub] Cons.prems Called show ?thesis
      by (auto split: option.splits)
  next
    case (ConsoleError line)
    with Cons show ?thesis by simp
  qed
qed

lemma waited_before_join:
  "waited_before target seen xs \<Longrightarrow> waited_before target seen ys \<Longrightarrow>
   waited_before target seen (xs @ ys)"
  using waited_before_mono[of target seen ys "concat (map shown (rev xs)) @ seen"]
  by (simp add: waited_before_append)

lemma wait_first_run: "wait_first target seen m \<Longrightarrow> waited_before target seen (events (m b))"
  by (simp add: wait_first_def)

lemma wait_first_return: "wait_first target seen (return_io a)"
  by (simp add: wait_first_def return_io_def events_def)

lemma wait_first_throw: "wait_first target seen (throw_io e)"
  by (simp add: wait_first_def throw_io_def events_def)

lemma wait_first_toEqual: "wait_first target seen (toEqual xs ys)"
  by (simp add: toEqual_def wait_first_return wait_first_throw)

lemma wait_first_bind:
  assumes "wait_first target seen m" and "\<And>a. wait_first target seen (f a)"
  shows "wait_first target seen (bind_io m f)"
  unfolding wait_first_def
proof
  fix b
  obtain r b1 ev1 where m: "m b = (r, b1, ev1)" by (cases "m b")
  have 1: "waited_before target seen ev1"
    using wait_first_run[OF assms(1), of b] m by (simp add: events_def)
  show "waited_before target seen (events (bind_io m f b))"
  proof (cases r)
    case (Inl e)
    with m 1 show ?thesis by (simp add: bind_io_def events_def)
  next
    case (Inr a)
    obtain r2 b2 ev2 where f: "f a b1 = (r2, b2, ev2)" by (cases "f a b1")
    have 2: "waited_before target seen ev2"
      using wait_first_run[OF assms(2), of a b1] f by (simp add: events_def)
    from Inr m f waited_before_join[OF 1 2] show ?thesis
      by (simp add: bind_io_def events_def)
  qed
qed

lemma wait_first_issue:
  "(case target c of None \<Rightarrow> True | Some l \<Rightarrow> l \<in> set seen) \<Longrightarrow> wait_first target seen (issue d c)"
  by (simp add: wait_first_def issue_def events_def split: prod.splits option.splits)

lemma wait_first_after_visible:
  assumes "target (ToBeVisible l t) = None" and "\<And>a. wait_first target (l # seen) (f a)"
  shows "wait_first target seen (bind_io (issue d (ToBeVisible l t)) f)"
  unfolding wait_first_def
proof
  fix b
  obtain r b1 where p: "perform d (ToBeVisible l t) b = (r, b1)"
    by (cases "perform d (ToBeVisible l t) b")
  show "waited_before target seen (events (bind_io (issue d (ToBeVisible l t)) f b))"
  proof (cases r)
    case (Some e)
    with p assms(1) show ?thesis by (simp add: bind_io_def issue_def events_def)
  next
    case None
    obtain r2 b2 ev2 where f: "f () b1 = (r2, b2, ev2)" by (cases "f () b1")
    have "waited_before target (l # seen) ev2"
      using wait_first_run[OF assms(2), of "()" b1] f by (simp add: events_def)
    with None p f assms(1) show ?thesis by (simp add: bind_io_def issue_def events_def)
  qed
qed

lemma wait_first_after_wait:
  assumes "target (ToBeVisible (Locator sel) t) = None"
    and "wait_first target (Locator sel # seen) (f (Locator sel))"
  shows "wait_first target seen (bind_io (waitForElement d sel t) f)"
  unfolding wait_first_def
proof
  fix b
  obtain r b1 where p: "perform d (ToBeVisible (Locator sel) t) b = (r, b1)"
    by (cases "perform d (ToBeVisible (Locator sel) t) b")
  show "waited_before target seen (events (bind_io (waitForElement d sel t) f b))"
  proof (cases r)
    case (Some e)
    with p assms(1) show ?thesis by (simp add: bind_io_def waitForElement_eq events_def)
  next
    case None
    obtain r2 b2 ev2 where f: "f (Locator sel) b1 = (r2, b2, ev2)" by (cases "f (Locator sel) b1")
    have "waited_before target (Locator sel # seen) ev2"
      using wait_first_run[OF assms(2), of b1] f by (simp add: events_def)
    with None p f assms(1) show ?thesis by (simp add: bind_io_def waitForElement_eq events_def)
  qed
qed

lemma wait_first_waitForElement: "wait_first acted seen (waitForElement d sel t)"
  by (simp add: wait_first_def waitForElement_eq events_def split: prod.splits option.splits)

lemma wait_first_assertElementText: "wait_first acted seen (assertElementText d sel x t)"
  by (simp add: wait_first_def assertElementText_eq events_def split: prod.splits option.splits)

lemma wait_first_clickElement: "wait_first acted seen (clickElement d sel)"
  by (simp add: wait_first_def clickElement_eq events_def split: prod.splits option.splits)

lemma wait_first_fillField: "wait_first acted seen (fillField d sel v)"
  by (simp add: wait_first_def fillField_eq events_def split: prod.splits option.splits)

lemma wait_first_assertUrlContains: "wait_first acted seen (assertUrlContains d u)"
  by (simp add: wait_first_def assertUrlContains_eq events_def split: prod.splits option.splits)

lemma wait_first_getAllTextContents: "wait_first acted seen (getAllTextContents d sel)"
  by (simp add: wait_first_def getAllTextContents_eq events_def split: prod.splits sum.splits)

lemmas wait_first_rules =
  wait_first_return wait_first_throw wait_first_toEqual wait_first_waitForElement
  wait_first_assertElementText wait_first_clickElement wait_first_fillField
  wait_first_assertUrlContains wait_first_getAllTextContents
  wait_first_after_wait wait_first_after_visible wait_first_bind wait_first_issue

lemmas page_defs =
  LoginPage_navigate_def LoginPage_assertLoginPage_def LoginPage_login_def
  LoginPage_assertLoginSuccess_def LoginPage_assertLoginError_def
  InventoryPage_assertInventoryPage_def InventoryPage_searchItemExistsInInventory_def
  InventoryPage_searchItem_def InventoryPage_assertItemInSearchResults_def
  InventoryPage_assertItemNotInSearchResults_def InventoryPage_selectProductSortOption_def
  InventoryPage_verifyFirstItemInList_def InventoryPage_verifyFirstItemPrice_def
  InventoryPage_backToProducts_def InventoryPage_clickOnInventoryItem_def
  InventoryPage_verifyItemDetails_def InventoryPage_verifyItemDescriptions_def
  InventoryPage_verifyItemPrices_def
  CartPage_assertCartPage_def CartPage_assertCartItemCount_def CartPage_addItemToCart_def
  CartPage_goToCart_def CartPage_assertItemAdded_def CartPage_removeItem_def
  CartPage_assertCartIsEmpty_def CartPage_assertItemRemoved_def CartPage_proceedToCheckout_def
  CheckoutPage_fillCheckoutInfo_def CheckoutPage_finishCheckout_def
  CheckoutPage_assertOrderConfirmation_def CheckoutPage_assertErrorMessage_def
  CheckoutPage_assertOrderSummary_def

lemma wait_first_assertCheckoutPage:
  "wait_first acted seen (CheckoutPage_assertCheckoutPage d)"
  unfolding wait_first_def
proof
  fix b
  have "wait_first acted seen
     (bind_io (issue d (ToHaveURL (UrlString (url d b))))
        (\<lambda>_. assertElementText d titleSelector ''Checkout: Your Information'' None))"
    by (intro wait_first_bind wait_first_issue wait_first_assertElementText) simp
  from wait_first_run[OF this, of b]
  show "waited_before acted seen (events (CheckoutPage_assertCheckoutPage d b))"
    by (simp add: CheckoutPage_assertCheckoutPage_def)
qed

lemma wait_first_assertOverviewPage:
  "wait_first acted seen (CheckoutPage_assertOverviewPage d)"
  unfolding wait_first_def
proof
  fix b
  have "wait_first acted seen
     (bind_io (issue d (ToHaveURL (UrlString (url d b))))
        (\<lambda>_. assertElementText d titleSelector ''Checkout: Overview'' None))"
    by (intro wait_first_bind wait_first_issue wait_first_assertElementText) simp
  from wait_first_run[OF this, of b]
  show "waited_before acted seen (events (CheckoutPage_assertOverviewPage d b))"
    by (simp add: CheckoutPage_assertOverviewPage_def)
qed

lemma wait_first_method: "wait_first acted [] (run d ops m)"
  by (cases m)
     (simp_all add: page_defs navigate_def getLocator_def Let_def
        wait_first_assertCheckoutPage wait_first_assertOverviewPage,
      (intro wait_first_rules; simp)+)

subsection \<open>Shared facts\<close>

lemma calls_append: "calls (xs @ ys) = calls xs @ calls ys"
proof (induction xs)
  case Nil
  show ?case by simp
next
  case (Cons e es)
  then show ?case by (cases e) simp_all
qed

lemma perform_shop: "perform shop = shop_perform"
  by (simp add: shop_def)


subsection \<open>Errors of the BasePage methods\<close>

lemma contains_here: "contains xs (xs @ post)"
proof -
  have "take (length xs) (xs @ post) = xs" by simp
  then show ?thesis by (cases "xs @ post") auto
qed

lemma contains_refl: "contains xs xs"
  using contains_here[of xs "[]"] by simp

lemma contains_skip: "contains xs ys \<Longrightarrow> contains xs (pre @ ys)"
  by (induction pre) simp_all

lemma contains_messages:
  "contains (quoted sel) (waitForElement_message sel t e)"
  "contains (timeout_or_default t) (waitForElement_message sel t e)"
  "contains (toString e) (waitForElement_message sel t e)"
  "contains (quoted sel) (assertElementText_message sel x t e)"
  "contains (quoted x) (assertElementText_message sel x t e)"
  "contains (toString e) (assertElementText_message sel x t e)"
  "contains (quoted sel) (clickElement_message sel e)"
  "contains (toString e) (clickElement_message sel e)"
  "contains (quoted sel) (fillField_message sel v e)"
  "contains (quoted v) (fillField_message sel v e)"
  "contains (toString e) (fillField_message sel v e)"
  "contains (quoted u) (assertUrlContains_message u current e)"
  "contains current (assertUrlContains_message u current e)"
  "contains (toString e) (assertUrlContains_message u current e)"
  "contains (quoted sel) (getAllTextContents_message sel e)"
  "contains (toString e) (getAllTextContents_message sel e)"
  unfolding waitForElement_message_def assertElementText_message_def clickElement_message_def
    fillField_message_def assertUrlContains_message_def getAllTextContents_message_def
  by (blast intro: contains_skip contains_here contains_refl)+

lemma waitForElement_message_nonempty: "waitForElement_message sel t e \<noteq> []"
  by (simp add: waitForElement_message_def)

lemma toString_Error: "m \<noteq> [] \<Longrightarrow> toString (Error m) = ''Error: '' @ m"
  by (simp add: Error_def)

lemma contains_wrapped:
  "contains (toString e) (toString (Error (waitForElement_message sel t e)))"
  by (simp only: toString_Error[OF waitForElement_message_nonempty])
     (rule contains_skip, rule contains_messages)

subsection \<open>Wait-then-act\<close>

text \<open>The driver calls of the two list assertions of the inventory: the read of the
  names, then the read of the descriptions (of the prices), and nothing else.\<close>

lemma verifyItemDescriptions_calls:
  "\<exists>n. calls (events (InventoryPage_verifyItemDescriptions d items b)) =
     take (Suc n) [AllTextContents (Locator itemNameSelector),
                   AllTextContents (Locator itemDescriptionSelector)]"
proof -
  have "calls (events (InventoryPage_verifyItemDescriptions d items b)) =
          take (Suc 0) [AllTextContents (Locator itemNameSelector),
                        AllTextContents (Locator itemDescriptionSelector)]
        \<or> calls (events (InventoryPage_verifyItemDescriptions d items b)) =
          take (Suc 1) [AllTextContents (Locator itemNameSelector),
                        AllTextContents (Locator itemDescriptionSelector)]"
    by (auto simp: InventoryPage_verifyItemDescriptions_def bind_io_def getAllTextContents_eq
          toEqual_def io_defs events_def split: prod.splits sum.splits)
  then show ?thesis by blast
qed

lemma verifyItemPrices_calls:
  "\<exists>n. calls (events (InventoryPage_verifyItemPrices d ops items b)) =
     take (Suc n) [AllTextContents (Locator itemNameSelector),
                   AllTextContents (Locator itemPriceSelector)]"
proof -
  have "calls (events (InventoryPage_verifyItemPrices d ops items b)) =
          take (Suc 0) [AllTextContents (Locator itemNameSelector),
                        AllTextContents (Locator itemPriceSelector)]
        \<or> calls (events (InventoryPage_verifyItemPrices d ops items b)) =
          take (Suc 1) [AllTextContents (Locator itemNameSelector),
                        AllTextContents (Locator itemPriceSelector)]"
    by (auto simp: InventoryPage_verifyItemPrices_def bind_io_def getAllTextContents_eq
          toEqual_def io_defs events_def Let_def split: prod.splits sum.splits)
  then show ?thesis by blast
qed

text \<open>
  C1 (as amended). For every method of the four page objects derived from BasePage, every
  driver and every browser state: each click, fill, key press and selection the method
  issues is on a locator for which a visibility wait has succeeded earlier in the same
  call. \<^verbatim>\<open>clickElement\<close> and \<^verbatim>\<open>fillField\<close> wait first: when the wait fails the wait is
  the only driver call, and when it succeeds the click (the fill) on the same locator is
  the one call that follows. Reading is not covered: the read of \<^verbatim>\<open>getAllTextContents\<close>
  and the text assertion of \<^verbatim>\<open>assertElementText\<close> are their only driver call, with no
  visibility wait, and so \<^verbatim>\<open>verifyItemDescriptions\<close> and \<^verbatim>\<open>verifyItemPrices\<close> issue
  nothing but their two reads.
\<close>

theorem wait_then_act:
  "waited_before acted [] (events (run d ops m b))
   \<and> (perform d (ToBeVisible (Locator sel) None) b = (Some e, b1) \<longrightarrow>
        calls (events (clickElement d sel b)) = [ToBeVisible (Locator sel) None]
        \<and> calls (events (fillField d sel v b)) = [ToBeVisible (Locator sel) None])
   \<and> (perform d (ToBeVisible (Locator sel) None) b = (None, b1) \<longrightarrow>
        calls (events (clickElement d sel b)) =
          [ToBeVisible (Locator sel) None, Click (Locator sel)]
        \<and> calls (events (fillField d sel v b)) =
          [ToBeVisible (Locator sel) None, Fill (Locator sel) v])
   \<and> calls (events (getAllTextContents d sel b)) = [AllTextContents (Locator sel)]
   \<and> calls (events (assertElementText d sel expectedText t b)) =
       [ToHaveText (Locator sel) expectedText t]
   \<and> (\<exists>n. calls (events (run d ops (Inventory_verifyItemDescriptions items) b)) =
          take (Suc n) [AllTextContents (Locator itemNameSelector),
                        AllTextContents (Locator itemDescriptionSelector)])
   \<and> (\<exists>n. calls (events (run d ops (Inventory_verifyItemPrices items) b)) =
          take (Suc n) [AllTextContents (Locator itemNameSelector),
                        AllTextContents (Locator itemPriceSelector)])"
proof (intro conjI impI)
  show "waited_before acted [] (events (run d ops m b))"
    by (rule wait_first_run[OF wait_first_method])
next
  assume "perform d (ToBeVisible (Locator sel) None) b = (Some e, b1)"
  then show "calls (events (clickElement d sel b)) = [ToBeVisible (Locator sel) None]"
    and "calls (events (fillField d sel v b)) = [ToBeVisible (Locator sel) None]"
    by (simp_all add: clickElement_eq fillField_eq events_def)
next
  assume "perform d (ToBeVisible (Locator sel) None) b = (None, b1)"
  then show "calls (events (clickElement d sel b)) =
      [ToBeVisible (Locator sel) None, Click (Locator sel)]"
    and "calls (events (fillField d sel v b)) =
      [ToBeVisible (Locator sel) None, Fill (Locator sel) v]"
    by (simp_all add: clickElement_eq fillField_eq events_def split: prod.splits option.splits)
next
  show "calls (events (getAllTextContents d sel b)) = [AllTextContents (Locator sel)]"
    by (simp add: getAllTextContents_eq events_def split: prod.splits sum.splits)
next
  show "calls (events (assertElementText d sel expectedText t b)) =
       [ToHaveText (Locator sel) expectedText t]"
    by (simp add: assertElementText_eq events_def split: prod.splits option.splits)
next
  show "\<exists>n. calls (events (run d ops (Inventory_verifyItemDescriptions items) b)) =
          take (Suc n) [AllTextContents (Locator itemNameSelector),
                        AllTextContents (Locator itemDescriptionSelector)]"
    using verifyItemDescriptions_calls[of d items b] by simp
next
  show "\<exists>n. calls (events (run d ops (Inventory_verifyItemPrices items) b)) =
          take (Suc n) [AllTextContents (Locator itemNameSelector),
                        AllTextContents (Locator itemPriceSelector)]"
    using verifyItemPrices_calls[of d ops items b] by simp
qed

theorem wait_then_act_witness:
  "waited_before acted []
     (events (run shop cents (Checkout_fillCheckoutInfo ''John'' ''Doe'' ''12345'') checkout_form))
   \<and> calls (events (clickElement shop finishButtonSelector checkout_form)) =
       [ToBeVisible (Locator finishButtonSelector) None]
   \<and> calls (events (fillField shop finishButtonSelector ''x'' checkout_form)) =
       [ToBeVisible (Locator finishButtonSelector) None]
   \<and> calls (events (clickElement shop continueButtonSelector checkout_form)) =
       [ToBeVisible (Locator continueButtonSelector) None, Click (Locator continueButtonSelector)]
   \<and> calls (events (fillField shop firstNameSelector ''John'' checkout_form)) =
       [ToBeVisible (Locator firstNameSelector) None, Fill (Locator firstNameSelector) ''John'']"
proof -
  have hidden: "perform shop (ToBeVisible (Locator finishButtonSelector) None) checkout_form =
      (Some timedOut, checkout_form)"
    by (simp add: shop_def checkout_form_def check_def)
  have button: "perform shop (ToBeVisible (Locator continueButtonSelector) None) checkout_form =
      (None, checkout_form)"
    by (simp add: shop_def checkout_form_def check_def)
  have field: "perform shop (ToBeVisible (Locator firstNameSelector) None) checkout_form =
      (None, checkout_form)"
    by (simp add: shop_def checkout_form_def check_def)
  note a = wait_then_act[of shop cents "Checkout_fillCheckoutInfo ''John'' ''Doe'' ''12345''"
      checkout_form finishButtonSelector timedOut checkout_form "''x''"]
  note b = wait_then_act[of shop cents Login_navigate checkout_form continueButtonSelector
      timedOut checkout_form "''x''"]
  note c = wait_then_act[of shop cents Login_navigate checkout_form firstNameSelector
      timedOut checkout_form "''John''"]
  from a hidden b button c field show ?thesis by blast
qed

text \<open>
  C1 (as stated) fails for reading methods: \<^verbatim>\<open>verifyItemPrices\<close> reads the names and
  prices on the page with \<^verbatim>\<open>allTextContents\<close> and passes, and no visibility wait was
  issued for either locator.
\<close>

theorem wait_then_act_counterexample:
  "outcome (run shop cents (Inventory_verifyItemPrices two_products) inventory) = Inr ()
   \<and> calls (events (run shop cents (Inventory_verifyItemPrices two_products) inventory)) =
       [AllTextContents (Locator itemNameSelector), AllTextContents (Locator itemPriceSelector)]
   \<and> \<not> waited_before touched []
         (events (run shop cents (Inventory_verifyItemPrices two_products) inventory))"
  by code_simp


subsection \<open>The errors of \<^verbatim>\<open>waitForElement\<close> and \<^verbatim>\<open>clickElement\<close>\<close>

text \<open>
  C2 (as amended). The failures of BasePage are plain \<^verbatim>\<open>Error\<close> objects whose message
  text carries the context. When the visibility wait fails for any reason with cause
  \<open>e\<close>, \<^verbatim>\<open>waitForElement\<close> fails with the message
  \<^verbatim>\<open>Element "<selector>" not visible within <t> timeout: <e>\<close>, where \<^verbatim>\<open><t>\<close> is the
  timeout in milliseconds when a positive timeout was passed and the word \<^verbatim>\<open>default\<close> when
  none was passed. \<^verbatim>\<open>clickElement\<close> waits and then clicks, and a failure of either is thrown
  again as \<^verbatim>\<open>Failed to click element "<selector>": <cause>\<close>, the cause being the error of
  \<^verbatim>\<open>waitForElement\<close> or the error of the click.
\<close>

theorem error_shapes:
  "(perform d (ToBeVisible (Locator sel) (Some ms)) b = (Some e, b1) \<and> 0 < ms \<longrightarrow>
      outcome (waitForElement d sel (Some ms) b) =
        Inl (Thrown ''Error'' (''Element '' @ quoted sel @ '' not visible within '' @ show_nat ms
               @ '' timeout: '' @ toString e)))
   \<and> (perform d (ToBeVisible (Locator sel) None) b = (Some e, b1) \<longrightarrow>
      outcome (waitForElement d sel None b) =
        Inl (Thrown ''Error'' (''Element '' @ quoted sel
               @ '' not visible within default timeout: '' @ toString e))
      \<and> outcome (clickElement d sel b) =
        Inl (Thrown ''Error'' (''Failed to click element '' @ quoted sel @ '': Error: Element ''
               @ quoted sel @ '' not visible within default timeout: '' @ toString e))
      \<and> calls (events (clickElement d sel b)) = [ToBeVisible (Locator sel) None])
   \<and> (perform d (ToBeVisible (Locator sel) None) b = (None, b1)
        \<and> perform d (Click (Locator sel)) b1 = (Some e, b2) \<longrightarrow>
      outcome (clickElement d sel b) =
        Inl (Thrown ''Error'' (''Failed to click element '' @ quoted sel @ '': '' @ toString e))
      \<and> calls (events (clickElement d sel b)) =
          [ToBeVisible (Locator sel) None, Click (Locator sel)])
   \<and> (perform d (ToBeVisible (Locator sel) None) b = (None, b1)
        \<and> perform d (Click (Locator sel)) b1 = (None, b2) \<longrightarrow>
      outcome (clickElement d sel b) = Inr ()
      \<and> calls (events (clickElement d sel b)) =
          [ToBeVisible (Locator sel) None, Click (Locator sel)])"
proof (intro conjI impI; (elim conjE)?)
  assume "perform d (ToBeVisible (Locator sel) (Some ms)) b = (Some e, b1)" and "0 < ms"
  then show "outcome (waitForElement d sel (Some ms) b) =
        Inl (Thrown ''Error'' (''Element '' @ quoted sel @ '' not visible within '' @ show_nat ms
               @ '' timeout: '' @ toString e))"
    by (simp add: waitForElement_eq outcome_def Error_def waitForElement_message_def
          timeout_or_default_def)
next
  assume f: "perform d (ToBeVisible (Locator sel) None) b = (Some e, b1)"
  then show "outcome (waitForElement d sel None b) =
        Inl (Thrown ''Error'' (''Element '' @ quoted sel
               @ '' not visible within default timeout: '' @ toString e))"
    by (simp add: waitForElement_eq outcome_def Error_def waitForElement_message_def
          timeout_or_default_def)
  from f show "outcome (clickElement d sel b) =
        Inl (Thrown ''Error'' (''Failed to click element '' @ quoted sel @ '': Error: Element ''
               @ quoted sel @ '' not visible within default timeout: '' @ toString e))"
    by (simp add: clickElement_eq outcome_def Error_def waitForElement_message_def
          clickElement_message_def timeout_or_default_def)
  from f show "calls (events (clickElement d sel b)) = [ToBeVisible (Locator sel) None]"
    by (simp add: clickElement_eq events_def)
next
  assume "perform d (ToBeVisible (Locator sel) None) b = (None, b1)"
    and "perform d (Click (Locator sel)) b1 = (Some e, b2)"
  then show "outcome (clickElement d sel b) =
        Inl (Thrown ''Error'' (''Failed to click element '' @ quoted sel @ '': '' @ toString e))"
    and "calls (events (clickElement d sel b)) =
          [ToBeVisible (Locator sel) None, Click (Locator sel)]"
    by (simp_all add: clickElement_eq outcome_def events_def Error_def clickElement_message_def)
next
  assume "perform d (ToBeVisible (Locator sel) None) b = (None, b1)"
    and "perform d (Click (Locator sel)) b1 = (None, b2)"
  then show "outcome (clickElement d sel b) = Inr ()"
    and "calls (events (clickElement d sel b)) =
          [ToBeVisible (Locator sel) None, Click (Locator sel)]"
    by (simp_all add: clickElement_eq outcome_def events_def)
qed

theorem error_shapes_witness:
  "outcome (waitForElement closed_browser checkoutButtonSelector (Some 10000) ()) =
     Inl (Thrown ''Error'' (''Element '' @ quoted ''#checkout''
        @ '' not visible within 10000 timeout: Error: Target page, context or browser has been closed''))
   \<and> outcome (clickElement closed_browser checkoutButtonSelector ()) =
     Inl (Thrown ''Error'' (''Failed to click element '' @ quoted ''#checkout''
        @ '': Error: Element '' @ quoted ''#checkout''
        @ '' not visible within default timeout: Error: Target page, context or browser has been closed''))
   \<and> outcome (clickElement shop continueButtonSelector frozen_form) =
     Inl (Thrown ''Error'' (''Failed to click element '' @ quoted ''#continue''
        @ '': TimeoutError: Timeout exceeded.''))
   \<and> outcome (clickElement shop continueButtonSelector checkout_form) = Inr ()"
proof -
  have gone: "perform closed_browser c () = (Some closed, ())" for c
    by (simp add: closed_browser_def)
  have ms: "show_nat 10000 = ''10000''"
    by (simp add: show_nat.simps digit_char_def)
  have c: "toString closed = ''Error: Target page, context or browser has been closed''"
    by (simp add: closed_def)
  have t: "toString timedOut = ''TimeoutError: Timeout exceeded.''"
    by (simp add: timedOut_def)
  have seen1: "perform shop (ToBeVisible (Locator continueButtonSelector) None) frozen_form =
      (None, frozen_form)"
    by (simp add: shop_def frozen_form_def checkout_form_def check_def)
  have stuck1: "perform shop (Click (Locator continueButtonSelector)) frozen_form =
      (Some timedOut, frozen_form)"
    by (simp add: shop_def frozen_form_def checkout_form_def on_visible_def)
  have seen2: "perform shop (ToBeVisible (Locator continueButtonSelector) None) checkout_form =
      (None, checkout_form)"
    by (simp add: shop_def checkout_form_def check_def)
  have go: "perform shop (Click (Locator continueButtonSelector)) checkout_form =
      (None, submitCheckoutForm checkout_form)"
    by (simp add: shop_def checkout_form_def on_visible_def)
  note a = error_shapes[of closed_browser checkoutButtonSelector 10000 "()" closed "()" "()"]
  note b = error_shapes[of shop continueButtonSelector 1 frozen_form timedOut frozen_form
      frozen_form]
  note g = error_shapes[of shop continueButtonSelector 1 checkout_form timedOut checkout_form
      "submitCheckoutForm checkout_form"]
  have h1: "perform closed_browser (ToBeVisible (Locator checkoutButtonSelector) (Some 10000)) ()
      = (Some closed, ()) \<and> 0 < (10000::nat)"
    by (simp add: gone)
  from a h1
  have "outcome (waitForElement closed_browser checkoutButtonSelector (Some 10000) ()) =
     Inl (Thrown ''Error'' (''Element '' @ quoted checkoutButtonSelector
        @ '' not visible within '' @ show_nat 10000 @ '' timeout: '' @ toString closed))"
    by blast
  then
  have 1: "outcome (waitForElement closed_browser checkoutButtonSelector (Some 10000) ()) =
     Inl (Thrown ''Error'' (''Element '' @ quoted ''#checkout''
        @ '' not visible within 10000 timeout: Error: Target page, context or browser has been closed''))"
    by (simp add: ms c)
  from a gone[of "ToBeVisible (Locator checkoutButtonSelector) None"]
  have "outcome (clickElement closed_browser checkoutButtonSelector ()) =
     Inl (Thrown ''Error'' (''Failed to click element '' @ quoted checkoutButtonSelector
        @ '': Error: Element '' @ quoted checkoutButtonSelector
        @ '' not visible within default timeout: '' @ toString closed))"
    by blast
  then
  have 2: "outcome (clickElement closed_browser checkoutButtonSelector ()) =
     Inl (Thrown ''Error'' (''Failed to click element '' @ quoted ''#checkout''
        @ '': Error: Element '' @ quoted ''#checkout''
        @ '' not visible within default timeout: Error: Target page, context or browser has been closed''))"
    by (simp add: c)
  from b seen1 stuck1
  have "outcome (clickElement shop continueButtonSelector frozen_form) =
     Inl (Thrown ''Error'' (''Failed to click element '' @ quoted continueButtonSelector
        @ '': '' @ toString timedOut))"
    by blast
  then
  have 3: "outcome (clickElement shop continueButtonSelector frozen_form) =
     Inl (Thrown ''Error'' (''Failed to click element '' @ quoted ''#continue''
        @ '': TimeoutError: Timeout exceeded.''))"
    by (simp add: t)
  from g seen2 go
  have 4: "outcome (clickElement shop continueButtonSelector checkout_form) = Inr ()"
    by blast
  from 1 2 3 4 show ?thesis by blast
qed

text \<open>
  C2 (as stated) fails: the error thrown is a plain \<^verbatim>\<open>Error\<close> whose message names the
  timeout as \<^verbatim>\<open>default\<close>, both when no timeout is passed and when the timeout passed is
  \<open>0\<close>; no digit occurs in the message, so no number of milliseconds is carried.
\<close>

theorem error_shapes_counterexample:
  "outcome (waitForElement closed_browser checkoutButtonSelector None ()) =
     Inl (Thrown ''Error'' (''Element '' @ quoted ''#checkout''
        @ '' not visible within default timeout: Error: Target page, context or browser has been closed''))
   \<and> outcome (waitForElement closed_browser checkoutButtonSelector (Some 0) ()) =
     Inl (Thrown ''Error'' (''Element '' @ quoted ''#checkout''
        @ '' not visible within default timeout: Error: Target page, context or browser has been closed''))
   \<and> filter (\<lambda>c. c \<in> set ''0123456789'') (''Element '' @ quoted ''#checkout''
        @ '' not visible within default timeout: Error: Target page, context or browser has been closed'')
      = []"
  by code_simp


subsection \<open>Selecting a sort option\<close>

text \<open>
  C3 (as amended). \<^verbatim>\<open>selectProductSortOption\<close> does not check the option: after the
  visibility wait on the dropdown it hands the string, unchanged, to the driver's
  \<^verbatim>\<open>selectOption\<close>. It succeeds whenever the driver accepts the string, and when the
  driver rejects it the driver's own error is thrown as it is. When the wait fails the
  driver's \<^verbatim>\<open>selectOption\<close> is not called. Both classes behave so; the class derived
  from BasePage reports a failed wait with the message of \<^verbatim>\<open>waitForElement\<close>.
\<close>

theorem selectProductSortOption_passes_through:
  "(perform d (ToBeVisible (Locator sortDropdownSelector) None) b = (Some e, b1) \<longrightarrow>
      outcome (InventoryPage_selectProductSortOption d opt b) =
        Inl (Error (waitForElement_message sortDropdownSelector None e))
      \<and> calls (events (InventoryPage_selectProductSortOption d opt b)) =
          [ToBeVisible (Locator sortDropdownSelector) None]
      \<and> outcome (Simple_InventoryPage_selectProductSortOption d opt b) = Inl e
      \<and> calls (events (Simple_InventoryPage_selectProductSortOption d opt b)) =
          [ToBeVisible (Locator sortDropdownSelector) None])
   \<and> (perform d (ToBeVisible (Locator sortDropdownSelector) None) b = (None, b1)
        \<and> perform d (SelectOption (Locator sortDropdownSelector) opt) b1 = (r, b2) \<longrightarrow>
      outcome (InventoryPage_selectProductSortOption d opt b) =
        (case r of None \<Rightarrow> Inr () | Some e \<Rightarrow> Inl e)
      \<and> calls (events (InventoryPage_selectProductSortOption d opt b)) =
          [ToBeVisible (Locator sortDropdownSelector) None,
           SelectOption (Locator sortDropdownSelector) opt]
      \<and> outcome (Simple_InventoryPage_selectProductSortOption d opt b) =
        (case r of None \<Rightarrow> Inr () | Some e \<Rightarrow> Inl e)
      \<and> calls (events (Simple_InventoryPage_selectProductSortOption d opt b)) =
          [ToBeVisible (Locator sortDropdownSelector) None,
           SelectOption (Locator sortDropdownSelector) opt])"
proof (intro conjI impI; (elim conjE)?)
  assume f: "perform d (ToBeVisible (Locator sortDropdownSelector) None) b = (Some e, b1)"
  then show "outcome (InventoryPage_selectProductSortOption d opt b) =
        Inl (Error (waitForElement_message sortDropdownSelector None e))"
    and "calls (events (InventoryPage_selectProductSortOption d opt b)) =
          [ToBeVisible (Locator sortDropdownSelector) None]"
    by (simp_all add: InventoryPage_selectProductSortOption_def bind_io_def waitForElement_eq
          outcome_def events_def)
  from f show "outcome (Simple_InventoryPage_selectProductSortOption d opt b) = Inl e"
    and "calls (events (Simple_InventoryPage_selectProductSortOption d opt b)) =
          [ToBeVisible (Locator sortDropdownSelector) None]"
    by (simp_all add: Simple_InventoryPage_selectProductSortOption_def bind_io_def issue_def
          outcome_def events_def)
next
  assume w: "perform d (ToBeVisible (Locator sortDropdownSelector) None) b = (None, b1)"
    and s: "perform d (SelectOption (Locator sortDropdownSelector) opt) b1 = (r, b2)"
  then show "outcome (InventoryPage_selectProductSortOption d opt b) =
        (case r of None \<Rightarrow> Inr () | Some e \<Rightarrow> Inl e)"
    and "calls (events (InventoryPage_selectProductSortOption d opt b)) =
          [ToBeVisible (Locator sortDropdownSelector) None,
           SelectOption (Locator sortDropdownSelector) opt]"
    by (simp_all add: InventoryPage_selectProductSortOption_def bind_io_def waitForElement_eq
          issue_def outcome_def events_def split: option.splits)
  from w s show "outcome (Simple_InventoryPage_selectProductSortOption d opt b) =
        (case r of None \<Rightarrow> Inr () | Some e \<Rightarrow> Inl e)"
    and "calls (events (Simple_InventoryPage_selectProductSortOption d opt b)) =
          [ToBeVisible (Locator sortDropdownSelector) None,
           SelectOption (Locator sortDropdownSelector) opt]"
    by (simp_all add: Simple_InventoryPage_selectProductSortOption_def bind_io_def issue_def
          outcome_def events_def split: option.splits)
qed

theorem selectProductSortOption_passes_through_witness:
  "outcome (InventoryPage_selectProductSortOption shop ''Price (low to high)'' inventory) = Inr ()
   \<and> calls (events (InventoryPage_selectProductSortOption shop ''Price (low to high)'' inventory))
       = [ToBeVisible (Locator sortDropdownSelector) None,
          SelectOption (Locator sortDropdownSelector) ''Price (low to high)'']
   \<and> outcome (InventoryPage_selectProductSortOption shop ''Rating'' inventory) = Inl timedOut
   \<and> calls (events (InventoryPage_selectProductSortOption shop ''Rating'' checkout_form))
       = [ToBeVisible (Locator sortDropdownSelector) None]"
proof -
  have shown: "perform shop (ToBeVisible (Locator sortDropdownSelector) None) inventory =
      (None, inventory)"
    by (simp add: shop_def inventory_def check_def)
  have known: "perform shop (SelectOption (Locator sortDropdownSelector) ''Price (low to high)'')
      inventory = (None, inventory)"
    by (simp add: shop_def inventory_def on_visible_def)
  have unknown: "perform shop (SelectOption (Locator sortDropdownSelector) ''Rating'') inventory =
      (Some timedOut, inventory)"
    by (simp add: shop_def inventory_def on_visible_def)
  have hidden: "perform shop (ToBeVisible (Locator sortDropdownSelector) None) checkout_form =
      (Some timedOut, checkout_form)"
    by (simp add: shop_def checkout_form_def check_def)
  note a = selectProductSortOption_passes_through[of shop inventory timedOut inventory
      "''Price (low to high)''" None inventory]
  note b = selectProductSortOption_passes_through[of shop inventory timedOut inventory
      "''Rating''" "Some timedOut" inventory]
  note c = selectProductSortOption_passes_through[of shop checkout_form timedOut checkout_form
      "''Rating''" None inventory]
  from a shown known
  have 1: "outcome (InventoryPage_selectProductSortOption shop ''Price (low to high)'' inventory)
      = (case None :: thrown option of None \<Rightarrow> Inr () | Some e \<Rightarrow> Inl e)
    \<and> calls (events (InventoryPage_selectProductSortOption shop ''Price (low to high)'' inventory))
       = [ToBeVisible (Locator sortDropdownSelector) None,
          SelectOption (Locator sortDropdownSelector) ''Price (low to high)'']"
    by blast
  from b shown unknown
  have 2: "outcome (InventoryPage_selectProductSortOption shop ''Rating'' inventory)
      = (case Some timedOut of None \<Rightarrow> Inr () | Some e \<Rightarrow> Inl e)"
    by blast
  from c hidden
  have 3: "calls (events (InventoryPage_selectProductSortOption shop ''Rating'' checkout_form))
       = [ToBeVisible (Locator sortDropdownSelector) None]"
    by blast
  from 1 2 3 show ?thesis by simp
qed

text \<open>
  C3 (as stated) fails: no error named \<^verbatim>\<open>InvalidOption\<close> exists. For an option outside
  the documented four, the method throws the driver's timeout error when the page does not
  offer the option, and returns normally when the page offers it (an option's
  \<^verbatim>\<open>value\<close> attribute such as \<^verbatim>\<open>az\<close>, or a fifth option).
\<close>

theorem selectProductSortOption_counterexample:
  "''Rating'' \<notin> set sortOptions
   \<and> outcome (InventoryPage_selectProductSortOption shop ''Rating'' inventory) =
       Inl (Thrown ''TimeoutError'' ''Timeout exceeded.'')
   \<and> outcome (Simple_InventoryPage_selectProductSortOption shop ''Rating'' inventory) =
       Inl (Thrown ''TimeoutError'' ''Timeout exceeded.'')
   \<and> outcome (InventoryPage_selectProductSortOption shop ''Rating''
         (inventory\<lparr>pg_options := (''rating'', ''Rating'') # pg_options inventory\<rparr>)) = Inr ()
   \<and> ''az'' \<notin> set sortOptions
   \<and> outcome (InventoryPage_selectProductSortOption shop ''az'' inventory) = Inr ()
   \<and> outcome (Simple_InventoryPage_selectProductSortOption shop ''az'' inventory) = Inr ()"
  by code_simp


subsection \<open>Failures are re-raised with their context\<close>

text \<open>
  C4. Whenever a driver operation inside a BasePage method fails with an error \<open>e\<close>, the
  method ends with a thrown \<^verbatim>\<open>Error\<close> (it never returns a value) whose message contains
  the selector (for \<^verbatim>\<open>assertUrlContains\<close>: the expected substring and the current
  address), the expected text or the value where there is one, and the text of the cause.
  When the wait inside \<^verbatim>\<open>clickElement\<close> or \<^verbatim>\<open>fillField\<close> fails, the cause named in the
  message is the error of \<^verbatim>\<open>waitForElement\<close>, whose text contains the text of \<open>e\<close>.
\<close>

theorem primitives_reraise:
  "(perform d (ToBeVisible (Locator sel) t) b = (Some e, b1) \<longrightarrow>
      (\<exists>msg. outcome (waitForElement d sel t b) = Inl (Error msg)
         \<and> contains (quoted sel) msg \<and> contains (toString e) msg))
   \<and> (perform d (ToHaveText (Locator sel) x t) b = (Some e, b1) \<longrightarrow>
      (\<exists>msg. outcome (assertElementText d sel x t b) = Inl (Error msg)
         \<and> contains (quoted sel) msg \<and> contains (quoted x) msg \<and> contains (toString e) msg))
   \<and> (perform d (ToBeVisible (Locator sel) None) b = (Some e, b1) \<longrightarrow>
      (\<exists>msg cause. outcome (clickElement d sel b) = Inl (Error msg)
         \<and> contains (quoted sel) msg \<and> contains (toString cause) msg
         \<and> contains (toString e) (toString cause))
      \<and> (\<exists>msg cause. outcome (fillField d sel v b) = Inl (Error msg)
         \<and> contains (quoted sel) msg \<and> contains (quoted v) msg
         \<and> contains (toString cause) msg \<and> contains (toString e) (toString cause)))
   \<and> (perform d (ToBeVisible (Locator sel) None) b = (None, b1)
        \<and> perform d (Click (Locator sel)) b1 = (Some e, b2) \<longrightarrow>
      (\<exists>msg. outcome (clickElement d sel b) = Inl (Error msg)
         \<and> contains (quoted sel) msg \<and> contains (toString e) msg))
   \<and> (perform d (ToBeVisible (Locator sel) None) b = (None, b1)
        \<and> perform d (Fill (Locator sel) v) b1 = (Some e, b2) \<longrightarrow>
      (\<exists>msg. outcome (fillField d sel v b) = Inl (Error msg)
         \<and> contains (quoted sel) msg \<and> contains (quoted v) msg \<and> contains (toString e) msg))
   \<and> (newRegExp d u = Some e \<longrightarrow>
      (\<exists>msg. outcome (assertUrlContains d u b) = Inl (Error msg)
         \<and> contains (quoted u) msg \<and> contains (url d b) msg \<and> contains (toString e) msg))
   \<and> (newRegExp d u = None \<and> perform d (ToHaveURL (UrlRegExp u)) b = (Some e, b1) \<longrightarrow>
      (\<exists>msg. outcome (assertUrlContains d u b) = Inl (Error msg)
         \<and> contains (quoted u) msg \<and> contains (url d b1) msg \<and> contains (toString e) msg))
   \<and> (allTextContents d (Locator sel) b = (Inl e, b1) \<longrightarrow>
      (\<exists>msg. outcome (getAllTextContents d sel b) = Inl (Error msg)
         \<and> contains (quoted sel) msg \<and> contains (toString e) msg))"
proof (intro conjI impI; (elim conjE)?)
  assume "perform d (ToBeVisible (Locator sel) t) b = (Some e, b1)"
  then have "outcome (waitForElement d sel t b) =
      Inl (Error (waitForElement_message sel t e))"
    by (simp add: waitForElement_eq outcome_def)
  then show "\<exists>msg. outcome (waitForElement d sel t b) = Inl (Error msg)
         \<and> contains (quoted sel) msg \<and> contains (toString e) msg"
    by (intro exI[of _ "waitForElement_message sel t e"])
       (simp add: contains_messages contains_wrapped)
next
  assume "perform d (ToHaveText (Locator sel) x t) b = (Some e, b1)"
  then have "outcome (assertElementText d sel x t b) =
      Inl (Error (assertElementText_message sel x t e))"
    by (simp add: assertElementText_eq outcome_def)
  then show "\<exists>msg. outcome (assertElementText d sel x t b) = Inl (Error msg)
         \<and> contains (quoted sel) msg \<and> contains (quoted x) msg \<and> contains (toString e) msg"
    by (intro exI[of _ "assertElementText_message sel x t e"])
       (simp add: contains_messages contains_wrapped)
next
  assume "perform d (ToBeVisible (Locator sel) None) b = (Some e, b1)"
  then have "outcome (clickElement d sel b) =
      Inl (Error (clickElement_message sel (Error (waitForElement_message sel None e))))"
    by (simp add: clickElement_eq outcome_def)
  then show "\<exists>msg cause. outcome (clickElement d sel b) = Inl (Error msg)
         \<and> contains (quoted sel) msg \<and> contains (toString cause) msg
         \<and> contains (toString e) (toString cause)"
    by (intro exI[of _ "clickElement_message sel (Error (waitForElement_message sel None e))"] exI[of _ "Error (waitForElement_message sel None e)"])
       (simp add: contains_messages contains_wrapped)
next
  assume "perform d (ToBeVisible (Locator sel) None) b = (Some e, b1)"
  then have "outcome (fillField d sel v b) =
      Inl (Error (fillField_message sel v (Error (waitForElement_message sel None e))))"
    by (simp add: fillField_eq outcome_def)
  then show "\<exists>msg cause. outcome (fillField d sel v b) = Inl (Error msg)
         \<and> contains (quoted sel) msg \<and> contains (quoted v) msg
         \<and> contains (toString cause) msg \<and> contains (toString e) (toString cause)"
    by (intro exI[of _ "fillField_message sel v (Error (waitForElement_message sel None e))"] exI[of _ "Error (waitForElement_message sel None e)"])
       (simp add: contains_messages contains_wrapped)
next
  assume "perform d (ToBeVisible (Locator sel) None) b = (None, b1)"
    and "perform d (Click (Locator sel)) b1 = (Some e, b2)"
  then have "outcome (clickElement d sel b) =
      Inl (Error (clickElement_message sel e))"
    by (simp add: clickElement_eq outcome_def)
  then show "\<exists>msg. outcome (clickElement d sel b) = Inl (Error msg)
         \<and> contains (quoted sel) msg \<and> contains (toString e) msg"
    by (intro exI[of _ "clickElement_message sel e"])
       (simp add: contains_messages contains_wrapped)
next
  assume "perform d (ToBeVisible (Locator sel) None) b = (None, b1)"
    and "perform d (Fill (Locator sel) v) b1 = (Some e, b2)"
  then have "outcome (fillField d sel v b) =
      Inl (Error (fillField_message sel v e))"
    by (simp add: fillField_eq outcome_def)
  then show "\<exists>msg. outcome (fillField d sel v b) = Inl (Error msg)
         \<and> contains (quoted sel) msg \<and> contains (quoted v) msg \<and> contains (toString e) msg"
    by (intro exI[of _ "fillField_message sel v e"])
       (simp add: contains_messages contains_wrapped)
next
  assume "newRegExp d u = Some e"
  then have "outcome (assertUrlContains d u b) =
      Inl (Error (assertUrlContains_message u (url d b) e))"
    by (simp add: assertUrlContains_eq outcome_def)
  then show "\<exists>msg. outcome (assertUrlContains d u b) = Inl (Error msg)
         \<and> contains (quoted u) msg \<and> contains (url d b) msg \<and> contains (toString e) msg"
    by (intro exI[of _ "assertUrlContains_message u (url d b) e"])
       (simp add: contains_messages contains_wrapped)
next
  assume "newRegExp d u = None" and "perform d (ToHaveURL (UrlRegExp u)) b = (Some e, b1)"
  then have "outcome (assertUrlContains d u b) =
      Inl (Error (assertUrlContains_message u (url d b1) e))"
    by (simp add: assertUrlContains_eq outcome_def)
  then show "\<exists>msg. outcome (assertUrlContains d u b) = Inl (Error msg)
         \<and> contains (quoted u) msg \<and> contains (url d b1) msg \<and> contains (toString e) msg"
    by (intro exI[of _ "assertUrlContains_message u (url d b1) e"])
       (simp add: contains_messages contains_wrapped)
next
  assume "allTextContents d (Locator sel) b = (Inl e, b1)"
  then have "outcome (getAllTextContents d sel b) =
      Inl (Error (getAllTextContents_message sel e))"
    by (simp add: getAllTextContents_eq outcome_def)
  then show "\<exists>msg. outcome (getAllTextContents d sel b) = Inl (Error msg)
         \<and> contains (quoted sel) msg \<and> contains (toString e) msg"
    by (intro exI[of _ "getAllTextContents_message sel e"])
       (simp add: contains_messages contains_wrapped)
qed

theorem primitives_reraise_witness:
  "(\<exists>msg. outcome (waitForElement closed_browser checkoutButtonSelector None ()) = Inl (Error msg)
      \<and> contains (quoted checkoutButtonSelector) msg \<and> contains (toString closed) msg)
   \<and> (\<exists>msg. outcome (assertElementText closed_browser titleSelector ''Your Cart'' None ()) =
        Inl (Error msg)
      \<and> contains (quoted titleSelector) msg \<and> contains (quoted ''Your Cart'') msg
      \<and> contains (toString closed) msg)
   \<and> (\<exists>msg. outcome (clickElement shop continueButtonSelector frozen_form) = Inl (Error msg)
      \<and> contains (quoted continueButtonSelector) msg \<and> contains (toString timedOut) msg)
   \<and> (\<exists>msg. outcome (fillField shop firstNameSelector ''John'' frozen_form) = Inl (Error msg)
      \<and> contains (quoted firstNameSelector) msg \<and> contains (quoted ''John'') msg
      \<and> contains (toString timedOut) msg)
   \<and> (\<exists>msg. outcome (assertUrlContains shop ''('' checkout_form) = Inl (Error msg)
      \<and> contains (quoted ''('') msg \<and> contains (pg_url checkout_form) msg)
   \<and> (\<exists>msg. outcome (assertUrlContains shop ''inventory'' checkout_form) = Inl (Error msg)
      \<and> contains (quoted ''inventory'') msg \<and> contains (pg_url checkout_form) msg
      \<and> contains (toString timedOut) msg)
   \<and> (\<exists>msg. outcome (getAllTextContents closed_browser itemNameSelector ()) = Inl (Error msg)
      \<and> contains (quoted itemNameSelector) msg \<and> contains (toString closed) msg)
   \<and> (\<exists>msg cause. outcome (clickElement closed_browser checkoutButtonSelector ()) =
        Inl (Error msg)
      \<and> contains (quoted checkoutButtonSelector) msg \<and> contains (toString cause) msg
      \<and> contains (toString closed) (toString cause))"
proof -
  have gone: "perform closed_browser c () = (Some closed, ())" for c
    by (simp add: closed_browser_def)
  have no_texts: "allTextContents closed_browser l () = (Inl closed, ())" for l
    by (simp add: closed_browser_def)
  note a = primitives_reraise[of closed_browser checkoutButtonSelector None "()" closed "()"
      "''Your Cart''" "''x''" "()" "''inventory''"]
  note a2 = primitives_reraise[of closed_browser titleSelector None "()" closed "()"
      "''Your Cart''" "''x''" "()" "''inventory''"]
  note a3 = primitives_reraise[of closed_browser itemNameSelector None "()" closed "()"
      "''Your Cart''" "''x''" "()" "''inventory''"]
  have seen1: "perform shop (ToBeVisible (Locator continueButtonSelector) None) frozen_form =
      (None, frozen_form)"
    by (simp add: shop_def frozen_form_def checkout_form_def check_def)
  have stuck1: "perform shop (Click (Locator continueButtonSelector)) frozen_form =
      (Some timedOut, frozen_form)"
    by (simp add: shop_def frozen_form_def checkout_form_def on_visible_def)
  note b = primitives_reraise[of shop continueButtonSelector None frozen_form timedOut
      frozen_form "''x''" "''x''" frozen_form "''(''"]
  have seen2: "perform shop (ToBeVisible (Locator firstNameSelector) None) frozen_form =
      (None, frozen_form)"
    by (simp add: shop_def frozen_form_def checkout_form_def check_def)
  have stuck2: "perform shop (Fill (Locator firstNameSelector) ''John'') frozen_form =
      (Some timedOut, frozen_form)"
    by (simp add: shop_def frozen_form_def checkout_form_def on_visible_def)
  note c = primitives_reraise[of shop firstNameSelector None frozen_form timedOut
      frozen_form "''x''" "''John''" frozen_form "''(''"]
  have bad: "newRegExp shop ''('' =
      Some (Thrown ''SyntaxError'' ''Invalid regular expression: /(/: Unterminated group'')"
    by (simp add: shop_def)
  note r = primitives_reraise[of shop firstNameSelector None checkout_form
      "Thrown ''SyntaxError'' ''Invalid regular expression: /(/: Unterminated group''"
      checkout_form "''x''" "''John''" checkout_form "''(''"]
  have good: "newRegExp shop ''inventory'' = None"
    by (simp add: shop_def)
  have other: "perform shop (ToHaveURL (UrlRegExp ''inventory'')) checkout_form =
      (Some timedOut, checkout_form)"
    by (simp add: shop_def checkout_form_def check_def)
  note u = primitives_reraise[of shop firstNameSelector None checkout_form timedOut
      checkout_form "''x''" "''John''" checkout_form "''inventory''"]
  have url: "url shop checkout_form = pg_url checkout_form"
    by (simp add: shop_def)
  from a gone have 1: "\<exists>msg. outcome (waitForElement closed_browser checkoutButtonSelector None ()) =
      Inl (Error msg)
      \<and> contains (quoted checkoutButtonSelector) msg \<and> contains (toString closed) msg"
    by blast
  from a2 gone have 2: "\<exists>msg.
      outcome (assertElementText closed_browser titleSelector ''Your Cart'' None ()) = Inl (Error msg)
      \<and> contains (quoted titleSelector) msg \<and> contains (quoted ''Your Cart'') msg
      \<and> contains (toString closed) msg"
    by blast
  from b seen1 stuck1 have 3: "\<exists>msg.
      outcome (clickElement shop continueButtonSelector frozen_form) = Inl (Error msg)
      \<and> contains (quoted continueButtonSelector) msg \<and> contains (toString timedOut) msg"
    by blast
  from c seen2 stuck2 have 4: "\<exists>msg.
      outcome (fillField shop firstNameSelector ''John'' frozen_form) = Inl (Error msg)
      \<and> contains (quoted firstNameSelector) msg \<and> contains (quoted ''John'') msg
      \<and> contains (toString timedOut) msg"
    by blast
  from r bad url have 5: "\<exists>msg. outcome (assertUrlContains shop ''('' checkout_form) = Inl (Error msg)
      \<and> contains (quoted ''('') msg \<and> contains (pg_url checkout_form) msg"
    by metis
  from u good other url have 6: "\<exists>msg.
      outcome (assertUrlContains shop ''inventory'' checkout_form) = Inl (Error msg)
      \<and> contains (quoted ''inventory'') msg \<and> contains (pg_url checkout_form) msg
      \<and> contains (toString timedOut) msg"
    by metis
  from a3 no_texts have 7: "\<exists>msg.
      outcome (getAllTextContents closed_browser itemNameSelector ()) = Inl (Error msg)
      \<and> contains (quoted itemNameSelector) msg \<and> contains (toString closed) msg"
    by blast
  from a gone have 8: "\<exists>msg cause.
      outcome (clickElement closed_browser checkoutButtonSelector ()) = Inl (Error msg)
      \<and> contains (quoted checkoutButtonSelector) msg \<and> contains (toString cause) msg
      \<and> contains (toString closed) (toString cause)"
    by blast
  from 1 2 3 4 5 6 7 8 show ?thesis by blast
qed


subsection \<open>Filling the checkout form\<close>

lemma issues_in_order_run:
  assumes "issues_in_order cs m" and "m b = (r, b1, ev)"
  shows "\<exists>n. calls ev = take n cs" and "r = Inr a \<Longrightarrow> calls ev = cs"
proof -
  from assms(1) have 1: "\<exists>n. calls (events (m b)) = take n cs"
    and 2: "(\<exists>a. outcome (m b) = Inr a) \<longrightarrow> calls (events (m b)) = cs"
    unfolding issues_in_order_def by blast+
  from 1 assms(2) show "\<exists>n. calls ev = take n cs"
    by (simp add: events_def)
  assume "r = Inr a"
  with 2 assms(2) show "calls ev = cs"
    by (simp add: events_def outcome_def)
qed

lemma issues_in_order_bind:
  assumes m: "issues_in_order cs m" and f: "\<And>a. issues_in_order ds (f a)"
  shows "issues_in_order (cs @ ds) (bind_io m f)"
  unfolding issues_in_order_def
proof (intro allI)
  fix b
  obtain r b1 ev1 where mb: "m b = (r, b1, ev1)" by (cases "m b")
  from issues_in_order_run(1)[OF m mb] obtain n where n: "calls ev1 = take n cs" ..
  show "(\<exists>n. calls (events (bind_io m f b)) = take n (cs @ ds)) \<and>
        ((\<exists>a. outcome (bind_io m f b) = Inr a) \<longrightarrow> calls (events (bind_io m f b)) = cs @ ds)"
  proof (cases r)
    case (Inl e)
    have "take n cs = take (min n (length cs)) (cs @ ds)"
      by (cases "n \<le> length cs") (simp_all add: min_def)
    with n have "calls ev1 = take (min n (length cs)) (cs @ ds)" by simp
    then have "\<exists>k. calls ev1 = take k (cs @ ds)" ..
    with Inl mb show ?thesis
      by (simp add: bind_io_def events_def outcome_def)
  next
    case (Inr a)
    from issues_in_order_run(2)[OF m mb Inr] have full: "calls ev1 = cs" .
    obtain r2 b2 ev2 where fb: "f a b1 = (r2, b2, ev2)" by (cases "f a b1")
    from issues_in_order_run(1)[OF f fb] obtain k where k: "calls ev2 = take k ds" ..
    have fin: "calls ev2 = ds" if "r2 = Inr x" for x
      using issues_in_order_run(2)[OF f fb that] .
    have "cs @ take k ds = take (length cs + k) (cs @ ds)" by simp
    with full k have "calls (ev1 @ ev2) = take (length cs + k) (cs @ ds)"
      by (simp add: calls_append)
    then have 1: "\<exists>j. calls (ev1 @ ev2) = take j (cs @ ds)" ..
    have 2: "calls (ev1 @ ev2) = cs @ ds" if "r2 = Inr x" for x
      using fin[OF that] full by (simp add: calls_append)
    from Inr mb fb 1 2 show ?thesis
      by (auto simp: bind_io_def events_def outcome_def)
  qed
qed

lemma issues_in_order_fillField:
  "issues_in_order [ToBeVisible (Locator sel) None, Fill (Locator sel) v] (fillField d sel v)"
  unfolding issues_in_order_def
proof (intro allI)
  fix b
  obtain r b1 where w: "perform d (ToBeVisible (Locator sel) None) b = (r, b1)"
    by (cases "perform d (ToBeVisible (Locator sel) None) b")
  obtain r2 b2 where a: "perform d (Fill (Locator sel) v) b1 = (r2, b2)"
    by (cases "perform d (Fill (Locator sel) v) b1")
  let ?cs = "[ToBeVisible (Locator sel) None, Fill (Locator sel) v]"
  show "(\<exists>n. calls (events (fillField d sel v b)) = take n ?cs) \<and>
        ((\<exists>x. outcome (fillField d sel v b) = Inr x) \<longrightarrow> calls (events (fillField d sel v b)) = ?cs)"
  proof (cases r)
    case (Some e)
    with w have c: "calls (events (fillField d sel v b)) = take 1 ?cs"
      and o: "outcome (fillField d sel v b) = Inl (Error (fillField_message sel v
            (Error (waitForElement_message sel None e))))"
      by (simp_all add: fillField_eq events_def outcome_def)
    from c have "\<exists>n. calls (events (fillField d sel v b)) = take n ?cs" ..
    with o show ?thesis by simp
  next
    case None
    with w a have c: "calls (events (fillField d sel v b)) = take 2 ?cs"
      by (cases r2) (simp_all add: fillField_eq events_def)
    then have "\<exists>n. calls (events (fillField d sel v b)) = take n ?cs" ..
    with c show ?thesis by simp
  qed
qed

lemma issues_in_order_clickElement:
  "issues_in_order [ToBeVisible (Locator sel) None, Click (Locator sel)] (clickElement d sel)"
  unfolding issues_in_order_def
proof (intro allI)
  fix b
  obtain r b1 where w: "perform d (ToBeVisible (Locator sel) None) b = (r, b1)"
    by (cases "perform d (ToBeVisible (Locator sel) None) b")
  obtain r2 b2 where a: "perform d (Click (Locator sel)) b1 = (r2, b2)"
    by (cases "perform d (Click (Locator sel)) b1")
  let ?cs = "[ToBeVisible (Locator sel) None, Click (Locator sel)]"
  show "(\<exists>n. calls (events (clickElement d sel b)) = take n ?cs) \<and>
        ((\<exists>x. outcome (clickElement d sel b) = Inr x) \<longrightarrow> calls (events (clickElement d sel b)) = ?cs)"
  proof (cases r)
    case (Some e)
    with w have c: "calls (events (clickElement d sel b)) = take 1 ?cs"
      and o: "outcome (clickElement d sel b) = Inl (Error (clickElement_message sel
            (Error (waitForElement_message sel None e))))"
      by (simp_all add: clickElement_eq events_def outcome_def)
    from c have "\<exists>n. calls (events (clickElement d sel b)) = take n ?cs" ..
    with o show ?thesis by simp
  next
    case None
    with w a have c: "calls (events (clickElement d sel b)) = take 2 ?cs"
      by (cases r2) (simp_all add: clickElement_eq events_def)
    then have "\<exists>n. calls (events (clickElement d sel b)) = take n ?cs" ..
    with c show ?thesis by simp
  qed
qed

lemma issues_in_order_fillCheckoutInfo:
  "issues_in_order
     ([ToBeVisible (Locator firstNameSelector) None, Fill (Locator firstNameSelector) f]
      @ [ToBeVisible (Locator lastNameSelector) None, Fill (Locator lastNameSelector) l]
      @ [ToBeVisible (Locator zipCodeSelector) None, Fill (Locator zipCodeSelector) z]
      @ [ToBeVisible (Locator continueButtonSelector) None, Click (Locator continueButtonSelector)])
     (CheckoutPage_fillCheckoutInfo d f l z)"
  unfolding CheckoutPage_fillCheckoutInfo_def
  by (intro issues_in_order_bind issues_in_order_fillField issues_in_order_clickElement)

lemma fillCheckoutInfo_on_form:
  "CheckoutPage_fillCheckoutInfo shop f l z checkout_form =
     (Inr (),
      submitCheckoutForm
        (checkout_form\<lparr>pg_fields := [(Locator zipCodeSelector, z), (Locator lastNameSelector, l),
                                       (Locator firstNameSelector, f)]\<rparr>),
      [Called (ToBeVisible (Locator firstNameSelector) None) True,
       Called (Fill (Locator firstNameSelector) f) True,
       Called (ToBeVisible (Locator lastNameSelector) None) True,
       Called (Fill (Locator lastNameSelector) l) True,
       Called (ToBeVisible (Locator zipCodeSelector) None) True,
       Called (Fill (Locator zipCodeSelector) z) True,
       Called (ToBeVisible (Locator continueButtonSelector) None) True,
       Called (Click (Locator continueButtonSelector)) True])"
  by (simp add: CheckoutPage_fillCheckoutInfo_def bind_io_def fillField_eq clickElement_eq
        shop_def checkout_form_def check_def on_visible_def)

lemma error_shown_on_form:
  "validationMessage f l z = Some m \<Longrightarrow>
   texts_of (submitCheckoutForm
        (checkout_form\<lparr>pg_fields := [(Locator zipCodeSelector, z), (Locator lastNameSelector, l),
                                       (Locator firstNameSelector, f)]\<rparr>))
     (Locator errorMessageSelector) = [m]"
  by (simp add: submitCheckoutForm_def field_value_def)

text \<open>
  C5. On every driver \<^verbatim>\<open>fillCheckoutInfo\<close> issues, in this order, the wait and the fill of
  the first name, of the last name and of the postal code and then the wait and the click
  of Continue: always a prefix of that sequence, and all of it when the method returns; the
  strings are passed on as they are, the empty string included. On the checkout form as
  modelled from the spec (first missing field, in the order first name, last name, postal
  code, decides the message), the method returns for all three strings, and the message
  then shown is the one \<open>validationMessage\<close> gives: \<^verbatim>\<open>assertErrorMessage\<close> passes for it
  and for no other text. With an empty first name that message is
  \<^verbatim>\<open>Error: First Name is required\<close>, whatever the other two fields hold.
\<close>

theorem fillCheckoutInfo_order:
  "(\<exists>n. calls (events (CheckoutPage_fillCheckoutInfo d f l z b)) =
      take n [ToBeVisible (Locator firstNameSelector) None, Fill (Locator firstNameSelector) f,
              ToBeVisible (Locator lastNameSelector) None, Fill (Locator lastNameSelector) l,
              ToBeVisible (Locator zipCodeSelector) None, Fill (Locator zipCodeSelector) z,
              ToBeVisible (Locator continueButtonSelector) None,
              Click (Locator continueButtonSelector)])
   \<and> (outcome (CheckoutPage_fillCheckoutInfo d f l z b) = Inr () \<longrightarrow>
        calls (events (CheckoutPage_fillCheckoutInfo d f l z b)) =
          [ToBeVisible (Locator firstNameSelector) None, Fill (Locator firstNameSelector) f,
           ToBeVisible (Locator lastNameSelector) None, Fill (Locator lastNameSelector) l,
           ToBeVisible (Locator zipCodeSelector) None, Fill (Locator zipCodeSelector) z,
           ToBeVisible (Locator continueButtonSelector) None,
           Click (Locator continueButtonSelector)])
   \<and> outcome (CheckoutPage_fillCheckoutInfo shop f l z checkout_form) = Inr ()
   \<and> (validationMessage f l z = Some m \<longrightarrow>
        (outcome (bind_io (CheckoutPage_fillCheckoutInfo shop f l z)
                    (\<lambda>_. CheckoutPage_assertErrorMessage shop shown_text) checkout_form) = Inr ())
        = (shown_text = m))
   \<and> validationMessage [] l z = Some ''Error: First Name is required''"
proof (intro conjI impI)
  note order = issues_in_order_fillCheckoutInfo[of f l z d, unfolded issues_in_order_def,
      rule_format, of b]
  from order show "\<exists>n. calls (events (CheckoutPage_fillCheckoutInfo d f l z b)) =
      take n [ToBeVisible (Locator firstNameSelector) None, Fill (Locator firstNameSelector) f,
              ToBeVisible (Locator lastNameSelector) None, Fill (Locator lastNameSelector) l,
              ToBeVisible (Locator zipCodeSelector) None, Fill (Locator zipCodeSelector) z,
              ToBeVisible (Locator continueButtonSelector) None,
              Click (Locator continueButtonSelector)]"
    by simp
  assume "outcome (CheckoutPage_fillCheckoutInfo d f l z b) = Inr ()"
  with order show "calls (events (CheckoutPage_fillCheckoutInfo d f l z b)) =
          [ToBeVisible (Locator firstNameSelector) None, Fill (Locator firstNameSelector) f,
           ToBeVisible (Locator lastNameSelector) None, Fill (Locator lastNameSelector) l,
           ToBeVisible (Locator zipCodeSelector) None, Fill (Locator zipCodeSelector) z,
           ToBeVisible (Locator continueButtonSelector) None,
           Click (Locator continueButtonSelector)]"
    by simp
next
  show "outcome (CheckoutPage_fillCheckoutInfo shop f l z checkout_form) = Inr ()"
    by (simp add: fillCheckoutInfo_on_form outcome_def)
next
  assume "validationMessage f l z = Some m"
  from error_shown_on_form[OF this]
  show "(outcome (bind_io (CheckoutPage_fillCheckoutInfo shop f l z)
                    (\<lambda>_. CheckoutPage_assertErrorMessage shop shown_text) checkout_form) = Inr ())
        = (shown_text = m)"
    by (auto simp: bind_io_def fillCheckoutInfo_on_form CheckoutPage_assertErrorMessage_def
          assertElementText_eq outcome_def perform_shop check_def)
next
  show "validationMessage [] l z = Some ''Error: First Name is required''"
    by (simp add: validationMessage_def)
qed

theorem fillCheckoutInfo_order_witness:
  "calls (events (CheckoutPage_fillCheckoutInfo shop [] ''Doe'' ''12345'' checkout_form)) =
     [ToBeVisible (Locator firstNameSelector) None, Fill (Locator firstNameSelector) [],
      ToBeVisible (Locator lastNameSelector) None, Fill (Locator lastNameSelector) ''Doe'',
      ToBeVisible (Locator zipCodeSelector) None, Fill (Locator zipCodeSelector) ''12345'',
      ToBeVisible (Locator continueButtonSelector) None, Click (Locator continueButtonSelector)]
   \<and> outcome (bind_io (CheckoutPage_fillCheckoutInfo shop [] ''Doe'' ''12345'')
        (\<lambda>_. CheckoutPage_assertErrorMessage shop ''Error: First Name is required'')
        checkout_form) = Inr ()
   \<and> outcome (bind_io (CheckoutPage_fillCheckoutInfo shop [] [] [])
        (\<lambda>_. CheckoutPage_assertErrorMessage shop ''Error: First Name is required'')
        checkout_form) = Inr ()
   \<and> outcome (bind_io (CheckoutPage_fillCheckoutInfo shop ''John'' [] ''12345'')
        (\<lambda>_. CheckoutPage_assertErrorMessage shop ''Error: Last Name is required'')
        checkout_form) = Inr ()
   \<and> outcome (bind_io (CheckoutPage_fillCheckoutInfo shop ''John'' ''Doe'' [])
        (\<lambda>_. CheckoutPage_assertErrorMessage shop ''Error: Postal Code is required'')
        checkout_form) = Inr ()"
proof -
  note a = fillCheckoutInfo_order[of shop "[]" "''Doe''" "''12345''" checkout_form
      "''Error: First Name is required''" "''Error: First Name is required''"]
  note b = fillCheckoutInfo_order[of shop "[]" "[]" "[]" checkout_form
      "''Error: First Name is required''" "''Error: First Name is required''"]
  note c = fillCheckoutInfo_order[of shop "''John''" "[]" "''12345''" checkout_form
      "''Error: Last Name is required''" "''Error: Last Name is required''"]
  note e = fillCheckoutInfo_order[of shop "''John''" "''Doe''" "[]" checkout_form
      "''Error: Postal Code is required''" "''Error: Postal Code is required''"]
  have v3: "validationMessage ''John'' [] ''12345'' = Some ''Error: Last Name is required''"
    by (simp add: validationMessage_def)
  have v4: "validationMessage ''John'' ''Doe'' [] = Some ''Error: Postal Code is required''"
    by (simp add: validationMessage_def)
  from a have 1: "calls (events (CheckoutPage_fillCheckoutInfo shop [] ''Doe'' ''12345''
      checkout_form)) =
     [ToBeVisible (Locator firstNameSelector) None, Fill (Locator firstNameSelector) [],
      ToBeVisible (Locator lastNameSelector) None, Fill (Locator lastNameSelector) ''Doe'',
      ToBeVisible (Locator zipCodeSelector) None, Fill (Locator zipCodeSelector) ''12345'',
      ToBeVisible (Locator continueButtonSelector) None, Click (Locator continueButtonSelector)]"
    by blast
  from a have 2: "outcome (bind_io (CheckoutPage_fillCheckoutInfo shop [] ''Doe'' ''12345'')
        (\<lambda>_. CheckoutPage_assertErrorMessage shop ''Error: First Name is required'')
        checkout_form) = Inr ()"
    by blast
  from b have 3: "outcome (bind_io (CheckoutPage_fillCheckoutInfo shop [] [] [])
        (\<lambda>_. CheckoutPage_assertErrorMessage shop ''Error: First Name is required'')
        checkout_form) = Inr ()"
    by blast
  from c v3 have 4: "outcome (bind_io (CheckoutPage_fillCheckoutInfo shop ''John'' [] ''12345'')
        (\<lambda>_. CheckoutPage_assertErrorMessage shop ''Error: Last Name is required'')
        checkout_form) = Inr ()"
    by blast
  from e v4 have 5: "outcome (bind_io (CheckoutPage_fillCheckoutInfo shop ''John'' ''Doe'' [])
        (\<lambda>_. CheckoutPage_assertErrorMessage shop ''Error: Postal Code is required'')
        checkout_form) = Inr ()"
    by blast
  from 1 2 3 4 5 show ?thesis by blast
qed


subsection \<open>Comparing the listed names, descriptions and prices\<close>

lemma verifyItemPrices_outcome:
  assumes "allTextContents d (Locator itemNameSelector) b = (Inr names, b1)"
    and "allTextContents d (Locator itemPriceSelector) b1 = (Inr prices, b2)"
  shows "(outcome (InventoryPage_verifyItemPrices d ops expected b) = Inr ()) =
     (names = map name expected
      \<and> map (\<lambda>p. parseFloat ops (remove1 (CHR ''$'') p)) prices = map price expected)"
  using assms
  by (simp add: InventoryPage_verifyItemPrices_def bind_io_def getAllTextContents_eq toEqual_def
        return_io_def throw_io_def outcome_def Let_def)

lemma verifyItemDescriptions_outcome:
  assumes "allTextContents d (Locator itemNameSelector) b = (Inr names, b1)"
    and "allTextContents d (Locator itemDescriptionSelector) b1 = (Inr descriptions, b2)"
  shows "(outcome (InventoryPage_verifyItemDescriptions d expected b) = Inr ()) =
     (names = map name expected \<and> descriptions = map description expected)"
  using assms
  by (simp add: InventoryPage_verifyItemDescriptions_def bind_io_def getAllTextContents_eq
        toEqual_def return_io_def throw_io_def outcome_def)

lemma lists_agree:
  "(names = map f expected \<and> map g prices = map h expected) =
     (length names = length expected \<and> length prices = length expected
      \<and> (\<forall>i<length expected. names ! i = f (expected ! i) \<and> g (prices ! i) = h (expected ! i)))"
  by (auto simp: list_eq_iff_nth_eq)

text \<open>
  C6. Once the names and the prices on the page are read, \<^verbatim>\<open>verifyItemPrices\<close> passes
  exactly when there are as many names and as many prices as expected items and, position
  by position, the name equals the expected name and the price text, with its first
  \<^verbatim>\<open>$\<close> removed and then parsed as a number, equals the expected price; with a different
  length or a single differing element it throws. \<^verbatim>\<open>verifyItemDescriptions\<close> compares
  names and descriptions in the same way. Numbers are abstract: the parser and the
  equality of numbers are those of the JavaScript library.
\<close>

theorem verifyItemPrices_all_or_nothing:
  "(allTextContents d (Locator itemNameSelector) b = (Inr names, bn)
      \<and> allTextContents d (Locator itemPriceSelector) bn = (Inr prices, bp) \<longrightarrow>
     (outcome (InventoryPage_verifyItemPrices d ops expected b) = Inr ()) =
       (length names = length expected \<and> length prices = length expected
        \<and> (\<forall>i<length expected.
              names ! i = name (expected ! i)
              \<and> parseFloat ops (remove1 (CHR ''$'') (prices ! i)) = price (expected ! i))))
   \<and> (allTextContents d (Locator itemNameSelector) b = (Inr names, bn)
      \<and> allTextContents d (Locator itemDescriptionSelector) bn = (Inr descriptions, bd) \<longrightarrow>
     (outcome (InventoryPage_verifyItemDescriptions d expected b) = Inr ()) =
       (length names = length expected \<and> length descriptions = length expected
        \<and> (\<forall>i<length expected.
              names ! i = name (expected ! i)
              \<and> descriptions ! i = description (expected ! i))))"
proof (intro conjI impI; elim conjE)
  assume "allTextContents d (Locator itemNameSelector) b = (Inr names, bn)"
    and "allTextContents d (Locator itemPriceSelector) bn = (Inr prices, bp)"
  from verifyItemPrices_outcome[OF this, of ops expected]
  show "(outcome (InventoryPage_verifyItemPrices d ops expected b) = Inr ()) =
       (length names = length expected \<and> length prices = length expected
        \<and> (\<forall>i<length expected.
              names ! i = name (expected ! i)
              \<and> parseFloat ops (remove1 (CHR ''$'') (prices ! i)) = price (expected ! i)))"
    by (simp only: lists_agree)
next
  assume "allTextContents d (Locator itemNameSelector) b = (Inr names, bn)"
    and "allTextContents d (Locator itemDescriptionSelector) bn = (Inr descriptions, bd)"
  from verifyItemDescriptions_outcome[OF this, of expected]
  show "(outcome (InventoryPage_verifyItemDescriptions d expected b) = Inr ()) =
       (length names = length expected \<and> length descriptions = length expected
        \<and> (\<forall>i<length expected.
              names ! i = name (expected ! i)
              \<and> descriptions ! i = description (expected ! i)))"
    using lists_agree[of names name expected "\<lambda>x. x" descriptions description]
    by simp
qed

theorem verifyItemPrices_all_or_nothing_witness:
  "outcome (InventoryPage_verifyItemPrices shop cents two_products inventory) = Inr ()
   \<and> outcome (InventoryPage_verifyItemDescriptions shop two_products inventory) = Inr ()
   \<and> outcome (InventoryPage_verifyItemPrices shop cents (take 1 two_products) inventory) \<noteq> Inr ()
   \<and> outcome (InventoryPage_verifyItemPrices shop cents (rev two_products) inventory) \<noteq> Inr ()"
proof -
  have names: "allTextContents shop (Locator itemNameSelector) inventory =
      (Inr [''Sauce Labs Backpack'', ''Sauce Labs Bike Light''], inventory)"
    by (simp add: shop_def inventory_def)
  have prices: "allTextContents shop (Locator itemPriceSelector) inventory =
      (Inr [''$29.99'', ''$9.99''], inventory)"
    by (simp add: shop_def inventory_def)
  have descriptions: "allTextContents shop (Locator itemDescriptionSelector) inventory =
      (Inr [''carry.allTheThings()'', ''A red light''], inventory)"
    by (simp add: shop_def inventory_def)
  have p1: "parseFloat cents (remove1 (CHR ''$'') ''$29.99'') = 2999"
    by code_simp
  have p2: "parseFloat cents (remove1 (CHR ''$'') ''$9.99'') = 999"
    by code_simp
  note a = verifyItemPrices_all_or_nothing[where d = shop and b = inventory and bn = inventory
      and bp = inventory and bd = inventory and ops = cents and expected = two_products
      and names = "[''Sauce Labs Backpack'', ''Sauce Labs Bike Light'']"
      and prices = "[''$29.99'', ''$9.99'']"
      and descriptions = "[''carry.allTheThings()'', ''A red light'']"]
  note b = verifyItemPrices_all_or_nothing[where d = shop and b = inventory and bn = inventory
      and bp = inventory and bd = inventory and ops = cents and expected = "take 1 two_products"
      and names = "[''Sauce Labs Backpack'', ''Sauce Labs Bike Light'']"
      and prices = "[''$29.99'', ''$9.99'']"
      and descriptions = "[''carry.allTheThings()'', ''A red light'']"]
  note c = verifyItemPrices_all_or_nothing[where d = shop and b = inventory and bn = inventory
      and bp = inventory and bd = inventory and ops = cents and expected = "rev two_products"
      and names = "[''Sauce Labs Backpack'', ''Sauce Labs Bike Light'']"
      and prices = "[''$29.99'', ''$9.99'']"
      and descriptions = "[''carry.allTheThings()'', ''A red light'']"]
  from a names prices
  have "(outcome (InventoryPage_verifyItemPrices shop cents two_products inventory) = Inr ()) =
       (length [''Sauce Labs Backpack'', ''Sauce Labs Bike Light''] = length two_products
        \<and> length [''$29.99'', ''$9.99''] = length two_products
        \<and> (\<forall>i<length two_products.
              [''Sauce Labs Backpack'', ''Sauce Labs Bike Light''] ! i = name (two_products ! i)
              \<and> parseFloat cents (remove1 (CHR ''$'') ([''$29.99'', ''$9.99''] ! i)) =
                  price (two_products ! i)))"
    by blast
  then have 1: "outcome (InventoryPage_verifyItemPrices shop cents two_products inventory) = Inr ()"
    using p1 p2 by (simp add: two_products_def All_less_Suc)
  from a names descriptions
  have "(outcome (InventoryPage_verifyItemDescriptions shop two_products inventory) = Inr ()) =
       (length [''Sauce Labs Backpack'', ''Sauce Labs Bike Light''] = length two_products
        \<and> length [''carry.allTheThings()'', ''A red light''] = length two_products
        \<and> (\<forall>i<length two_products.
              [''Sauce Labs Backpack'', ''Sauce Labs Bike Light''] ! i = name (two_products ! i)
              \<and> [''carry.allTheThings()'', ''A red light''] ! i =
                  description (two_products ! i)))"
    by blast
  then have 2: "outcome (InventoryPage_verifyItemDescriptions shop two_products inventory) = Inr ()"
    by (simp add: two_products_def All_less_Suc)
  from b names prices
  have "(outcome (InventoryPage_verifyItemPrices shop cents (take 1 two_products) inventory)
          = Inr ()) \<longrightarrow>
       length [''Sauce Labs Backpack'', ''Sauce Labs Bike Light''] = length (take 1 two_products)"
    by blast
  then have 3: "outcome (InventoryPage_verifyItemPrices shop cents (take 1 two_products) inventory)
      \<noteq> Inr ()"
    by (simp add: two_products_def)
  from c names prices
  have "(outcome (InventoryPage_verifyItemPrices shop cents (rev two_products) inventory)
          = Inr ()) \<longrightarrow>
       (\<forall>i<length (rev two_products).
          [''Sauce Labs Backpack'', ''Sauce Labs Bike Light''] ! i = name (rev two_products ! i))"
    by blast
  then have "(outcome (InventoryPage_verifyItemPrices shop cents (rev two_products) inventory)
          = Inr ()) \<longrightarrow>
       [''Sauce Labs Backpack'', ''Sauce Labs Bike Light''] ! 0 = name (rev two_products ! 0)"
    by (simp add: two_products_def All_less_Suc)
  then have 4: "outcome (InventoryPage_verifyItemPrices shop cents (rev two_products) inventory)
      \<noteq> Inr ()"
    by (simp add: two_products_def)
  from 1 2 3 4 show ?thesis by blast
qed


subsection \<open>Reading all text contents\<close>

text \<open>
  C7. \<^verbatim>\<open>getAllTextContents\<close> hands back what the driver's \<^verbatim>\<open>allTextContents\<close> returns for
  the locator of the selector, unchanged and in the same order, and this read is the only
  driver call it makes: it waits for nothing. In particular an empty result of the driver
  is returned as the empty list, not as an error. (That \<^verbatim>\<open>allTextContents\<close> lists the
  matching elements in document order is the driver's contract.)
\<close>

theorem getAllTextContents_reads:
  "(allTextContents d (Locator sel) b = (Inr xs, b1) \<longrightarrow>
      outcome (getAllTextContents d sel b) = Inr xs
      \<and> events (getAllTextContents d sel b) = [Called (AllTextContents (Locator sel)) True])
   \<and> (allTextContents d (Locator sel) b = (Inr [], b1) \<longrightarrow>
      outcome (getAllTextContents d sel b) = Inr [])
   \<and> calls (events (getAllTextContents d sel b)) = [AllTextContents (Locator sel)]"
  by (cases "allTextContents d (Locator sel) b"; cases "fst (allTextContents d (Locator sel) b)")
     (simp_all add: getAllTextContents_eq outcome_def events_def)

theorem getAllTextContents_reads_witness:
  "outcome (getAllTextContents shop itemNameSelector inventory) =
     Inr [''Sauce Labs Backpack'', ''Sauce Labs Bike Light'']
   \<and> events (getAllTextContents shop itemNameSelector inventory) =
       [Called (AllTextContents (Locator itemNameSelector)) True]
   \<and> outcome (getAllTextContents shop cartItemsSelector inventory) = Inr []"
proof -
  have names: "allTextContents shop (Locator itemNameSelector) inventory =
      (Inr [''Sauce Labs Backpack'', ''Sauce Labs Bike Light''], inventory)"
    by (simp add: shop_def inventory_def)
  have none: "allTextContents shop (Locator cartItemsSelector) inventory = (Inr [], inventory)"
    by (simp add: shop_def inventory_def)
  from getAllTextContents_reads[of shop itemNameSelector inventory
      "[''Sauce Labs Backpack'', ''Sauce Labs Bike Light'']" inventory] names
    getAllTextContents_reads[of shop cartItemsSelector inventory "[]" inventory] none
  show ?thesis by blast
qed


subsection \<open>Timeouts passed by the page objects\<close>

lemma calls_within_run: "calls_within S m \<Longrightarrow> set (calls (events (m b))) \<subseteq> S"
  by (simp add: calls_within_def)

lemma calls_within_return: "calls_within S (return_io a)"
  by (simp add: calls_within_def return_io_def events_def)

lemma calls_within_throw: "calls_within S (throw_io e)"
  by (simp add: calls_within_def throw_io_def events_def)

lemma calls_within_toEqual: "calls_within S (toEqual xs ys)"
  by (simp add: toEqual_def calls_within_return calls_within_throw)

lemma calls_within_issue: "c \<in> S \<Longrightarrow> calls_within S (issue d c)"
  by (simp add: calls_within_def issue_def events_def split: prod.splits option.splits)

lemma calls_within_bind:
  assumes "calls_within S m" and "\<And>a. calls_within S (f a)"
  shows "calls_within S (bind_io m f)"
  unfolding calls_within_def
proof
  fix b
  obtain r b1 ev1 where m: "m b = (r, b1, ev1)" by (cases "m b")
  have 1: "set (calls ev1) \<subseteq> S"
    using calls_within_run[OF assms(1), of b] m by (simp add: events_def)
  show "set (calls (events (bind_io m f b))) \<subseteq> S"
  proof (cases r)
    case (Inl e)
    with m 1 show ?thesis by (simp add: bind_io_def events_def)
  next
    case (Inr a)
    obtain r2 b2 ev2 where f: "f a b1 = (r2, b2, ev2)" by (cases "f a b1")
    have "set (calls ev2) \<subseteq> S"
      using calls_within_run[OF assms(2), of a b1] f by (simp add: events_def)
    with Inr m f 1 show ?thesis
      by (simp add: bind_io_def events_def calls_append)
  qed
qed

lemma calls_within_waitForElement:
  "ToBeVisible (Locator sel) t \<in> S \<Longrightarrow> calls_within S (waitForElement d sel t)"
  by (simp add: calls_within_def waitForElement_eq events_def split: prod.splits option.splits)

lemma calls_within_assertElementText:
  "ToHaveText (Locator sel) x t \<in> S \<Longrightarrow> calls_within S (assertElementText d sel x t)"
  by (simp add: calls_within_def assertElementText_eq events_def
      split: prod.splits option.splits)

lemma calls_within_clickElement:
  "ToBeVisible (Locator sel) None \<in> S \<Longrightarrow> Click (Locator sel) \<in> S \<Longrightarrow>
   calls_within S (clickElement d sel)"
  by (simp add: calls_within_def clickElement_eq events_def split: prod.splits option.splits)

lemma calls_within_fillField:
  "ToBeVisible (Locator sel) None \<in> S \<Longrightarrow> Fill (Locator sel) v \<in> S \<Longrightarrow>
   calls_within S (fillField d sel v)"
  by (simp add: calls_within_def fillField_eq events_def split: prod.splits option.splits)

lemma calls_within_assertUrlContains:
  "ToHaveURL (UrlRegExp u) \<in> S \<Longrightarrow> calls_within S (assertUrlContains d u)"
  by (simp add: calls_within_def assertUrlContains_eq events_def
      split: prod.splits option.splits)

lemma calls_within_getAllTextContents:
  "AllTextContents (Locator sel) \<in> S \<Longrightarrow> calls_within S (getAllTextContents d sel)"
  by (simp add: calls_within_def getAllTextContents_eq events_def split: prod.splits sum.splits)

lemma calls_within_assertCheckoutPage:
  "{c. timeout_of c = None} \<subseteq> S \<Longrightarrow> calls_within S (CheckoutPage_assertCheckoutPage d)"
  unfolding calls_within_def
proof
  fix b
  assume S: "{c. timeout_of c = None} \<subseteq> S"
  then have "calls_within S
     (bind_io (issue d (ToHaveURL (UrlString (url d b))))
        (\<lambda>_. assertElementText d titleSelector ''Checkout: Your Information'' None))"
    by (intro calls_within_bind calls_within_issue calls_within_assertElementText) auto
  from calls_within_run[OF this, of b]
  show "set (calls (events (CheckoutPage_assertCheckoutPage d b))) \<subseteq> S"
    by (simp add: CheckoutPage_assertCheckoutPage_def)
qed

lemma calls_within_assertOverviewPage:
  "{c. timeout_of c = None} \<subseteq> S \<Longrightarrow> calls_within S (CheckoutPage_assertOverviewPage d)"
  unfolding calls_within_def
proof
  fix b
  assume S: "{c. timeout_of c = None} \<subseteq> S"
  then have "calls_within S
     (bind_io (issue d (ToHaveURL (UrlString (url d b))))
        (\<lambda>_. assertElementText d titleSelector ''Checkout: Overview'' None))"
    by (intro calls_within_bind calls_within_issue calls_within_assertElementText) auto
  from calls_within_run[OF this, of b]
  show "set (calls (events (CheckoutPage_assertOverviewPage d b))) \<subseteq> S"
    by (simp add: CheckoutPage_assertOverviewPage_def)
qed

lemmas calls_within_rules =
  calls_within_return calls_within_throw calls_within_toEqual calls_within_waitForElement
  calls_within_assertElementText calls_within_clickElement calls_within_fillField
  calls_within_assertUrlContains calls_within_getAllTextContents calls_within_bind
  calls_within_issue

lemma calls_within_method:
  "calls_within ({c. timeout_of c = None} \<union> explicit_timeout m) (run d ops m)"
  by (cases m)
     (simp_all add: page_defs navigate_def getLocator_def Let_def
        calls_within_assertCheckoutPage calls_within_assertOverviewPage,
      (intro calls_within_rules; simp)+)

lemma explicit_timeout_cases:
  "c \<in> explicit_timeout m \<Longrightarrow>
   (\<exists>n. m = Cart_assertCartItemCount n
        \<and> c = ToHaveText (Locator cartBadgeSelector) (show_nat n) (Some 10000))
   \<or> (\<exists>i. m = Cart_assertItemAdded i
        \<and> c = ToBeVisible (Locator (itemNameHasText i)) (Some 10000))"
  by (cases m) simp_all

text \<open>
  C8 (as amended). \<^verbatim>\<open>assertCartItemCount\<close> issues one call, the text assertion on the
  badge with the explicit timeout 10000. In every method of the four page objects the only
  other call that passes a timeout is the visibility wait of \<^verbatim>\<open>assertItemAdded\<close>, which
  passes the same 10000; every other call, so every other text assertion, passes none and
  the driver waits its configured default. Against a default below 10000 the badge
  assertion therefore waits longer than every assertion but that one wait.
\<close>

theorem badge_timeout:
  "calls (events (CartPage_assertCartItemCount d n b)) =
     [ToHaveText (Locator cartBadgeSelector) (show_nat n) (Some 10000)]
   \<and> (c \<in> set (calls (events (run d ops m b))) \<and> timeout_of c \<noteq> None \<longrightarrow>
        (\<exists>k. m = Cart_assertCartItemCount k
            \<and> c = ToHaveText (Locator cartBadgeSelector) (show_nat k) (Some 10000))
        \<or> (\<exists>i. m = Cart_assertItemAdded i
            \<and> c = ToBeVisible (Locator (itemNameHasText i)) (Some 10000)))
   \<and> (c \<in> set (calls (events (run d ops m b))) \<and> c \<notin> explicit_timeout m
        \<and> defaultTimeout < 10000 \<longrightarrow>
        effective_timeout defaultTimeout (timeout_of c)
          < effective_timeout defaultTimeout
              (timeout_of (ToHaveText (Locator cartBadgeSelector) (show_nat n) (Some 10000))))"
proof (intro conjI impI; (elim conjE)?)
  show "calls (events (CartPage_assertCartItemCount d n b)) =
     [ToHaveText (Locator cartBadgeSelector) (show_nat n) (Some 10000)]"
    by (simp add: CartPage_assertCartItemCount_def issue_def events_def getLocator_def
        split: prod.splits option.splits)
next
  assume c: "c \<in> set (calls (events (run d ops m b)))" and t: "timeout_of c \<noteq> None"
  from calls_within_run[OF calls_within_method, of d ops m b] c t
  have "c \<in> explicit_timeout m" by auto
  then show "(\<exists>k. m = Cart_assertCartItemCount k
            \<and> c = ToHaveText (Locator cartBadgeSelector) (show_nat k) (Some 10000))
        \<or> (\<exists>i. m = Cart_assertItemAdded i
            \<and> c = ToBeVisible (Locator (itemNameHasText i)) (Some 10000))"
    by (rule explicit_timeout_cases)
next
  assume c: "c \<in> set (calls (events (run d ops m b)))" and x: "c \<notin> explicit_timeout m"
    and less: "defaultTimeout < 10000"
  from calls_within_run[OF calls_within_method, of d ops m b] c x
  have "timeout_of c = None" by auto
  with less show "effective_timeout defaultTimeout (timeout_of c)
          < effective_timeout defaultTimeout
              (timeout_of (ToHaveText (Locator cartBadgeSelector) (show_nat n) (Some 10000)))"
    by (simp add: effective_timeout_def)
qed

theorem badge_timeout_witness:
  "calls (events (CartPage_assertCartItemCount shop 1 cart_with_backpack)) =
     [ToHaveText (Locator cartBadgeSelector) ''1'' (Some 10000)]
   \<and> effective_timeout 5000 (timeout_of (ToHaveText (Locator titleSelector) ''Your Cart'' None))
       < effective_timeout 5000
           (timeout_of (ToHaveText (Locator cartBadgeSelector) ''1'' (Some 10000)))
   \<and> ((\<exists>k. (Cart_assertItemAdded ''Sauce Labs Backpack'' :: nat method_call)
              = Cart_assertCartItemCount k
          \<and> ToBeVisible (Locator (itemNameHasText ''Sauce Labs Backpack'')) (Some 10000)
              = ToHaveText (Locator cartBadgeSelector) (show_nat k) (Some 10000))
        \<or> (\<exists>i. (Cart_assertItemAdded ''Sauce Labs Backpack'' :: nat method_call)
              = Cart_assertItemAdded i
          \<and> ToBeVisible (Locator (itemNameHasText ''Sauce Labs Backpack'')) (Some 10000)
              = ToBeVisible (Locator (itemNameHasText i)) (Some 10000)))"
proof -
  have one: "show_nat 1 = ''1''"
    by (simp add: show_nat.simps digit_char_def)
  have title: "ToHaveText (Locator titleSelector) ''Your Cart'' None
      \<in> set (calls (events (run shop cents Cart_assertCartPage cart_with_backpack)))"
    by (simp add: CartPage_assertCartPage_def assertElementText_eq perform_shop
          cart_with_backpack_def check_def events_def)
  have plain: "ToHaveText (Locator titleSelector) ''Your Cart'' None
      \<notin> explicit_timeout (Cart_assertCartPage :: nat method_call)"
    by simp
  have wait: "ToBeVisible (Locator (itemNameHasText ''Sauce Labs Backpack'')) (Some 10000)
      \<in> set (calls (events (run shop cents (Cart_assertItemAdded ''Sauce Labs Backpack'')
            cart_with_backpack)))"
    by (simp add: CartPage_assertItemAdded_def CartPage_goToCart_def bind_io_def clickElement_eq
          waitForElement_eq issue_def perform_shop cart_with_backpack_def check_def
          on_visible_def events_def)
  note a = badge_timeout[of shop 1 cart_with_backpack
      "ToHaveText (Locator titleSelector) ''Your Cart'' None" cents Cart_assertCartPage 5000]
  note b = badge_timeout[of shop 1 cart_with_backpack
      "ToBeVisible (Locator (itemNameHasText ''Sauce Labs Backpack'')) (Some 10000)" cents
      "Cart_assertItemAdded ''Sauce Labs Backpack''" 5000]
  from a one have 1: "calls (events (CartPage_assertCartItemCount shop 1 cart_with_backpack)) =
     [ToHaveText (Locator cartBadgeSelector) ''1'' (Some 10000)]"
    by simp
  have "(5000::nat) < 10000" by simp
  with a title plain
  have "effective_timeout 5000 (timeout_of (ToHaveText (Locator titleSelector) ''Your Cart'' None))
       < effective_timeout 5000
           (timeout_of (ToHaveText (Locator cartBadgeSelector) (show_nat 1) (Some 10000)))"
    by blast
  with one have 2: "effective_timeout 5000
        (timeout_of (ToHaveText (Locator titleSelector) ''Your Cart'' None))
       < effective_timeout 5000
           (timeout_of (ToHaveText (Locator cartBadgeSelector) ''1'' (Some 10000)))"
    by simp
  have "timeout_of (ToBeVisible (Locator (itemNameHasText ''Sauce Labs Backpack'')) (Some 10000))
      \<noteq> None"
    by simp
  with b wait
  have 3: "(\<exists>k. (Cart_assertItemAdded ''Sauce Labs Backpack'' :: nat method_call)
              = Cart_assertCartItemCount k
          \<and> ToBeVisible (Locator (itemNameHasText ''Sauce Labs Backpack'')) (Some 10000)
              = ToHaveText (Locator cartBadgeSelector) (show_nat k) (Some 10000))
        \<or> (\<exists>i. (Cart_assertItemAdded ''Sauce Labs Backpack'' :: nat method_call)
              = Cart_assertItemAdded i
          \<and> ToBeVisible (Locator (itemNameHasText ''Sauce Labs Backpack'')) (Some 10000)
              = ToBeVisible (Locator (itemNameHasText i)) (Some 10000))"
    by blast
  from 1 2 3 show ?thesis by blast
qed

text \<open>
  C8 (as stated) fails for one assertion: \<^verbatim>\<open>assertItemAdded\<close> waits for the item to be
  visible with the same explicit timeout of 10000, so the badge assertion does not wait
  longer than that assertion, whatever the default is.
\<close>

theorem badge_timeout_counterexample:
  "calls (events (run shop cents (Cart_assertItemAdded ''Sauce Labs Backpack'')
      cart_with_backpack)) =
     [ToBeVisible (Locator cartLinkSelector) None, Click (Locator cartLinkSelector),
      ToBeVisible (Locator (itemNameHasText ''Sauce Labs Backpack'')) (Some 10000),
      ToHaveText (Locator (itemNameHasText ''Sauce Labs Backpack'')) ''Sauce Labs Backpack'' None]
   \<and> is_assertion (ToBeVisible (Locator (itemNameHasText ''Sauce Labs Backpack'')) (Some 10000))
   \<and> \<not> effective_timeout 5000
          (timeout_of (ToBeVisible (Locator (itemNameHasText ''Sauce Labs Backpack''))
             (Some 10000)))
        < effective_timeout 5000
            (timeout_of (ToHaveText (Locator cartBadgeSelector) ''1'' (Some 10000)))"
  by (simp add: CartPage_assertItemAdded_def CartPage_goToCart_def bind_io_def clickElement_eq
        waitForElement_eq issue_def perform_shop cart_with_backpack_def check_def
        on_visible_def events_def effective_timeout_def)


subsection \<open>The selector of the remove control\<close>

text \<open>\<open>runs\<close> cuts a list into its maximal runs: the runs put together give the list
  back, no run is empty, \<open>P\<close> is constant on a run, and it changes from each run to the
  next.\<close>

lemma runs_Nil_iff: "runs P xs = [] \<longleftrightarrow> xs = []"
  by (cases xs) (auto split: list.splits)

lemma concat_runs: "concat (runs P xs) = xs"
  by (induction xs) (auto split: list.splits)

lemma runs_nonempty: "r \<in> set (runs P xs) \<Longrightarrow> r \<noteq> []"
  by (induction xs arbitrary: r) (auto split: list.splits if_splits)

lemma hd_hd_runs: "hd (hd (runs P (x # xs))) = x"
  by (auto split: list.splits)

lemma runs_uniform: "r \<in> set (runs P xs) \<Longrightarrow> y \<in> set r \<Longrightarrow> P y = P (hd r)"
proof (induction xs arbitrary: r y)
  case Nil
  then show ?case by simp
next
  case (Cons x xs)
  show ?case
  proof (cases "runs P xs")
    case Nil
    with Cons.prems show ?thesis by simp
  next
    case (Cons q qs)
    have q: "\<And>z. z \<in> set q \<Longrightarrow> P z = P (hd q)"
      using Cons.IH[of q] Cons by simp
    have qs: "\<And>r' z. r' \<in> set qs \<Longrightarrow> z \<in> set r' \<Longrightarrow> P z = P (hd r')"
      using Cons.IH Cons by simp
    show ?thesis
      using Cons.prems Cons q qs by (auto split: if_splits)
  qed
qed

lemma runs_maximal:
  "runs P xs = as @ r # r' # bs \<Longrightarrow> P (hd r) \<noteq> P (hd r')"
proof (induction xs arbitrary: as r r' bs)
  case Nil
  then show ?case by simp
next
  case (Cons x xs)
  show ?case
  proof (cases "runs P xs")
    case Nil
    with Cons.prems show ?thesis by (cases as) auto
  next
    case (Cons q qs)
    note IH = Cons.IH[unfolded Cons]
    show ?thesis
    proof (cases "P x = P (hd q)")
      case True
      with Cons.prems Cons have eq: "(x # q) # qs = as @ r # r' # bs" by simp
      show ?thesis
      proof (cases as)
        case Nil
        with eq have "r = x # q" "qs = r' # bs" by auto
        with IH[of "[]" q r' bs] True show ?thesis by simp
      next
        case (Cons a as')
        with eq have "q # qs = (q # as') @ r # r' # bs" by auto
        with IH[of "q # as'" r r' bs] show ?thesis by simp
      qed
    next
      case False
      with Cons.prems Cons have eq: "[x] # q # qs = as @ r # r' # bs" by simp
      show ?thesis
      proof (cases as)
        case Nil
        with eq have "r = [x]" "r' = q" by auto
        with False show ?thesis by simp
      next
        case (Cons a as')
        with eq have "q # qs = as' @ r # r' # bs" by auto
        with IH[of as' r r' bs] show ?thesis by simp
      qed
    qed
  qed
qed

lemma replaceWhitespace_hyphenate_runs: "replaceWhitespace s = hyphenate_runs s"
proof (induction s)
  case Nil
  show ?case by (simp add: hyphenate_runs_def)
next
  case (Cons c cs)
  show ?case
  proof (cases cs)
    case Nil
    then show ?thesis by (simp add: hyphenate_runs_def)
  next
    case (Cons y ys)
    obtain r rs where rr: "runs isWhitespace (y # ys) = r # rs"
      using runs_Nil_iff[of isWhitespace "y # ys"] by (cases "runs isWhitespace (y # ys)") blast+
    have hdr: "hd r = y" using hd_hd_runs[of isWhitespace y ys] rr by simp
    have IH: "replaceWhitespace (y # ys) = hyphenate_runs (y # ys)"
      using Cons.IH Cons by simp
    have step: "runs isWhitespace (c # y # ys) =
        (if isWhitespace c = isWhitespace y then (c # r) # rs else [c] # r # rs)"
      using rr hdr by (simp del: runs.simps add: runs.simps(2)[of isWhitespace c "y # ys"])
    show ?thesis
    proof (cases "isWhitespace c")
      case True
      show ?thesis
      proof (cases "isWhitespace y")
        case True
        have "replaceWhitespace (c # y # ys) = replaceWhitespace (y # ys)"
          using \<open>isWhitespace c\<close> True by simp
        moreover have "hyphenate_runs (c # y # ys) = hyphenate_runs (y # ys)"
          using \<open>isWhitespace c\<close> True step rr hdr
          by (simp add: hyphenate_runs_def del: runs.simps)
        ultimately show ?thesis using IH Cons by simp
      next
        case False
        have "replaceWhitespace (c # y # ys) = CHR ''-'' # replaceWhitespace (y # ys)"
          using \<open>isWhitespace c\<close> False by simp
        moreover have "hyphenate_runs (c # y # ys) = CHR ''-'' # hyphenate_runs (y # ys)"
          using \<open>isWhitespace c\<close> False step rr hdr
          by (simp add: hyphenate_runs_def del: runs.simps)
        ultimately show ?thesis using IH Cons by simp
      qed
    next
      case False
      have "replaceWhitespace (c # y # ys) = c # replaceWhitespace (y # ys)"
        using False by simp
      moreover have "hyphenate_runs (c # y # ys) = c # hyphenate_runs (y # ys)"
        using False step rr hdr
        by (cases "isWhitespace y") (simp_all add: hyphenate_runs_def del: runs.simps)
      ultimately show ?thesis using IH Cons by simp
    qed
  qed
qed

lemma replaceWhitespace_append_nonws:
  "\<not> isWhitespace c \<Longrightarrow> replaceWhitespace (xs @ c # ys) = replaceWhitespace xs @ c # replaceWhitespace ys"
proof (induction xs rule: replaceWhitespace.induct)
  case 1
  then show ?case by simp
next
  case (2 x xs)
  show ?case
  proof (cases "isWhitespace x")
    case True
    have "dropWhile isWhitespace (xs @ c # ys) = dropWhile isWhitespace xs @ c # ys"
      using 2(3) by (induction xs) auto
    with True 2 show ?thesis by simp
  next
    case False
    with 2 show ?thesis by simp
  qed
qed

text \<open>The driver calls of \<^verbatim>\<open>removeItem\<close>, by the stage at which it stops.\<close>

lemma CartPage_removeItem_calls:
  "calls (events (CartPage_removeItem d itemName b)) =
     (case perform d (ToBeVisible (Locator (removeButtonSelector itemName)) None) b of
        (Some e, b1) \<Rightarrow> [ToBeVisible (Locator (removeButtonSelector itemName)) None]
      | (None, b1) \<Rightarrow>
          (case perform d (Click (Locator (removeButtonSelector itemName))) b1 of
             (Some e, b2) \<Rightarrow>
               [ToBeVisible (Locator (removeButtonSelector itemName)) None,
               Click (Locator (removeButtonSelector itemName))]
           | (None, b2) \<Rightarrow>
               [ToBeVisible (Locator (removeButtonSelector itemName)) None,
               Click (Locator (removeButtonSelector itemName)),
               NotToBeVisible (Locator (removeButtonSelector itemName))]))"
  by (auto simp: CartPage_removeItem_def bind_io_def waitForElement_eq issue_def events_def
        getLocator_def split: prod.splits option.splits sum.splits)

lemma Simple_CartPage_removeItem_calls:
  "calls (events (Simple_CartPage_removeItem d itemName b)) =
     (case perform d (ToBeVisible (Locator (removeButtonSelector itemName)) None) b of
        (Some e, b1) \<Rightarrow> [ToBeVisible (Locator (removeButtonSelector itemName)) None]
      | (None, b1) \<Rightarrow>
          (case perform d (Click (Locator (removeButtonSelector itemName))) b1 of
             (Some e, b2) \<Rightarrow>
               [ToBeVisible (Locator (removeButtonSelector itemName)) None,
               Click (Locator (removeButtonSelector itemName))]
           | (None, b2) \<Rightarrow>
               [ToBeVisible (Locator (removeButtonSelector itemName)) None,
               Click (Locator (removeButtonSelector itemName)),
               NotToBeVisible (Locator (removeButtonSelector itemName))]))"
  by (auto simp: Simple_CartPage_removeItem_def bind_io_def issue_def events_def
        split: prod.splits option.splits sum.splits)

lemma formattedItemName_keeps:
  assumes "\<not> isWhitespace c" and "toLowerCase_char c = c"
  shows "formattedItemName (xs @ c # ys) = formattedItemName xs @ c # formattedItemName ys"
proof -
  from assms have "\<not> isWhitespace (toLowerCase_char c)" by simp
  from replaceWhitespace_append_nonws[OF this, of "toLowerCase xs" "toLowerCase ys"] assms
  show ?thesis by (simp add: formattedItemName_def toLowerCase_def)
qed

lemma punctuation_fixed:
  "\<not> isWhitespace CHR ''.''" "toLowerCase_char CHR ''.'' = CHR ''.''"
  "\<not> isWhitespace CHR ''(''" "toLowerCase_char CHR ''('' = CHR ''(''"
  "\<not> isWhitespace CHR '')''" "toLowerCase_char CHR '')'' = CHR '')''"
  by (simp_all add: isWhitespace_def toLowerCase_char_def)

text \<open>
  C9. \<^verbatim>\<open>CartPage.removeItem\<close> (in both classes) derives the selector of the remove control
  from the item name alone: it is \<^verbatim>\<open>[data-test="remove-<formatted>"]\<close>, where
  \<^verbatim>\<open><formatted>\<close> is the item name in lower case with each maximal run of white space
  replaced by one hyphen (the scan of \<^verbatim>\<open>replace(/\s+/g, '-')\<close> computes just that). The
  driver calls of the method are all on the locator of that selector: the visibility wait
  alone when it fails, the wait and the click when the click fails, and otherwise the
  wait, the click and the check that the control is gone. A full stop and the two
  parentheses stay where they are, unchanged, and so does every character that is neither
  white space nor changed by the case mapping.
\<close>

theorem removeItem_selector:
  "removeButtonSelector itemName =
     ''[data-test='' @ quoted (''remove-'' @ hyphenate_runs (toLowerCase itemName)) @ '']''
   \<and> (perform d (ToBeVisible (Locator (removeButtonSelector itemName)) None) b = (Some e, b1) \<longrightarrow>
        calls (events (CartPage_removeItem d itemName b)) =
          [ToBeVisible (Locator (removeButtonSelector itemName)) None]
        \<and> calls (events (Simple_CartPage_removeItem d itemName b)) =
          [ToBeVisible (Locator (removeButtonSelector itemName)) None])
   \<and> (perform d (ToBeVisible (Locator (removeButtonSelector itemName)) None) b = (None, b1)
        \<and> perform d (Click (Locator (removeButtonSelector itemName))) b1 = (Some e, b2) \<longrightarrow>
        calls (events (CartPage_removeItem d itemName b)) =
          [ToBeVisible (Locator (removeButtonSelector itemName)) None,
          Click (Locator (removeButtonSelector itemName))]
        \<and> calls (events (Simple_CartPage_removeItem d itemName b)) =
          [ToBeVisible (Locator (removeButtonSelector itemName)) None,
          Click (Locator (removeButtonSelector itemName))])
   \<and> (perform d (ToBeVisible (Locator (removeButtonSelector itemName)) None) b = (None, b1)
        \<and> perform d (Click (Locator (removeButtonSelector itemName))) b1 = (None, b2) \<longrightarrow>
        calls (events (CartPage_removeItem d itemName b)) =
          [ToBeVisible (Locator (removeButtonSelector itemName)) None,
          Click (Locator (removeButtonSelector itemName)),
          NotToBeVisible (Locator (removeButtonSelector itemName))]
        \<and> calls (events (Simple_CartPage_removeItem d itemName b)) =
          [ToBeVisible (Locator (removeButtonSelector itemName)) None,
          Click (Locator (removeButtonSelector itemName)),
          NotToBeVisible (Locator (removeButtonSelector itemName))])
   \<and> formattedItemName (xs @ ''.'' @ ys) = formattedItemName xs @ ''.'' @ formattedItemName ys
   \<and> formattedItemName (xs @ ''('' @ ys) = formattedItemName xs @ ''('' @ formattedItemName ys
   \<and> formattedItemName (xs @ '')'' @ ys) = formattedItemName xs @ '')'' @ formattedItemName ys
   \<and> (\<not> isWhitespace c \<and> toLowerCase_char c = c \<longrightarrow>
        formattedItemName (xs @ c # ys) = formattedItemName xs @ c # formattedItemName ys)"
proof (intro conjI impI)
  show "removeButtonSelector itemName =
     ''[data-test='' @ quoted (''remove-'' @ hyphenate_runs (toLowerCase itemName)) @ '']''"
    by (simp add: removeButtonSelector_def formattedItemName_def
        replaceWhitespace_hyphenate_runs)
next
  assume "perform d (ToBeVisible (Locator (removeButtonSelector itemName)) None) b = (Some e, b1)"
  then show "calls (events (CartPage_removeItem d itemName b)) =
          [ToBeVisible (Locator (removeButtonSelector itemName)) None]"
    and "calls (events (Simple_CartPage_removeItem d itemName b)) =
          [ToBeVisible (Locator (removeButtonSelector itemName)) None]"
    by (simp_all add: CartPage_removeItem_calls Simple_CartPage_removeItem_calls)
next
  assume "perform d (ToBeVisible (Locator (removeButtonSelector itemName)) None) b = (None, b1)
        \<and> perform d (Click (Locator (removeButtonSelector itemName))) b1 = (Some e, b2)"
  then show "calls (events (CartPage_removeItem d itemName b)) =
          [ToBeVisible (Locator (removeButtonSelector itemName)) None,
          Click (Locator (removeButtonSelector itemName))]"
    and "calls (events (Simple_CartPage_removeItem d itemName b)) =
          [ToBeVisible (Locator (removeButtonSelector itemName)) None,
          Click (Locator (removeButtonSelector itemName))]"
    by (simp_all add: CartPage_removeItem_calls Simple_CartPage_removeItem_calls)
next
  assume "perform d (ToBeVisible (Locator (removeButtonSelector itemName)) None) b = (None, b1)
        \<and> perform d (Click (Locator (removeButtonSelector itemName))) b1 = (None, b2)"
  then show "calls (events (CartPage_removeItem d itemName b)) =
          [ToBeVisible (Locator (removeButtonSelector itemName)) None,
          Click (Locator (removeButtonSelector itemName)),
          NotToBeVisible (Locator (removeButtonSelector itemName))]"
    and "calls (events (Simple_CartPage_removeItem d itemName b)) =
          [ToBeVisible (Locator (removeButtonSelector itemName)) None,
          Click (Locator (removeButtonSelector itemName)),
          NotToBeVisible (Locator (removeButtonSelector itemName))]"
    by (simp_all add: CartPage_removeItem_calls Simple_CartPage_removeItem_calls)
next
  show "formattedItemName (xs @ ''.'' @ ys) = formattedItemName xs @ ''.'' @ formattedItemName ys"
    using formattedItemName_keeps[OF punctuation_fixed(1,2)] by simp
next
  show "formattedItemName (xs @ ''('' @ ys) = formattedItemName xs @ ''('' @ formattedItemName ys"
    using formattedItemName_keeps[OF punctuation_fixed(3,4)] by simp
next
  show "formattedItemName (xs @ '')'' @ ys) = formattedItemName xs @ '')'' @ formattedItemName ys"
    using formattedItemName_keeps[OF punctuation_fixed(5,6)] by simp
next
  assume "\<not> isWhitespace c \<and> toLowerCase_char c = c"
  then show "formattedItemName (xs @ c # ys) = formattedItemName xs @ c # formattedItemName ys"
    by (simp add: formattedItemName_keeps)
qed

theorem removeItem_selector_witness:
  "removeButtonSelector ''Sauce Labs Backpack'' =
     ''[data-test='' @ quoted ''remove-sauce-labs-backpack'' @ '']''
   \<and> calls (events (CartPage_removeItem shop ''Sauce Labs Backpack'' cart_with_backpack)) =
       [ToBeVisible (Locator (''[data-test='' @ quoted ''remove-sauce-labs-backpack'' @ '']'')) None]
   \<and> calls (events (Simple_CartPage_removeItem shop ''Sauce Labs Backpack''
         (cart_with_remove_control\<lparr>pg_disabled := [Locator (''[data-test='' @ quoted ''remove-sauce-labs-backpack'' @ '']'')]\<rparr>))) =
       [ToBeVisible (Locator (''[data-test='' @ quoted ''remove-sauce-labs-backpack'' @ '']'')) None,
        Click (Locator (''[data-test='' @ quoted ''remove-sauce-labs-backpack'' @ '']''))]
   \<and> calls (events (CartPage_removeItem shop ''Sauce Labs Backpack'' cart_with_remove_control)) =
       [ToBeVisible (Locator (''[data-test='' @ quoted ''remove-sauce-labs-backpack'' @ '']'')) None,
        Click (Locator (''[data-test='' @ quoted ''remove-sauce-labs-backpack'' @ '']'')),
        NotToBeVisible (Locator (''[data-test='' @ quoted ''remove-sauce-labs-backpack'' @ '']''))]
   \<and> formattedItemName ''Test.allTheThings() T-Shirt (Red)'' =
       ''test.allthethings()-t-shirt-(red)''
   \<and> formattedItemName (''CAF'' @ [CHR 0xC9, CHR 0xA0] @ ''Au-Lait'') =
       ''caf'' @ [CHR 0xE9] @ ''-au-lait''"
proof -
  let ?l = "Locator (''[data-test='' @ quoted ''remove-sauce-labs-backpack'' @ '']'')"
  let ?stuck = "cart_with_remove_control\<lparr>pg_disabled := [?l]\<rparr>"
  have h: "hyphenate_runs (toLowerCase ''Sauce Labs Backpack'') = ''sauce-labs-backpack''"
    by code_simp
  from removeItem_selector[of "''Sauce Labs Backpack''" shop cart_with_backpack timedOut
      cart_with_backpack cart_with_backpack "''Test''" "''allTheThings() T-Shirt (Red)''"
      "CHR ''-''"]
  have "removeButtonSelector ''Sauce Labs Backpack'' =
     ''[data-test='' @ quoted (''remove-'' @ hyphenate_runs (toLowerCase ''Sauce Labs Backpack''))
       @ '']''"
    by (rule conjunct1)
  with h have sel: "removeButtonSelector ''Sauce Labs Backpack'' =
     ''[data-test='' @ quoted ''remove-sauce-labs-backpack'' @ '']''"
    by simp
  have absent: "perform shop (ToBeVisible ?l None) cart_with_backpack =
      (Some timedOut, cart_with_backpack)"
    by code_simp
  have seen: "perform shop (ToBeVisible ?l None) cart_with_remove_control =
      (None, cart_with_remove_control)"
    by code_simp
  have seen_stuck: "perform shop (ToBeVisible ?l None) ?stuck = (None, ?stuck)"
    by code_simp
  have stuck: "perform shop (Click ?l) ?stuck = (Some timedOut, ?stuck)"
    by code_simp
  have clicked: "perform shop (Click ?l) cart_with_remove_control =
      (None, cart_with_remove_control)"
    by code_simp
  note a = removeItem_selector[of "''Sauce Labs Backpack''" shop cart_with_backpack timedOut
      cart_with_backpack cart_with_backpack "''Test''" "''allTheThings() T-Shirt (Red)''"
      "CHR ''-''", unfolded sel]
  note b = removeItem_selector[of "''Sauce Labs Backpack''" shop ?stuck timedOut ?stuck ?stuck
      "''CAF'' @ [CHR 0xC9, CHR 0xA0] @ ''Au''" "''Lait''" "CHR ''-''", unfolded sel]
  note c = removeItem_selector[of "''Sauce Labs Backpack''" shop cart_with_remove_control timedOut
      cart_with_remove_control cart_with_remove_control "''Test''"
      "''allTheThings() T-Shirt (Red)''" "CHR ''-''", unfolded sel]
  have hyphen: "\<not> isWhitespace CHR ''-'' \<and> toLowerCase_char CHR ''-'' = CHR ''-''"
    by code_simp
  have 1: "calls (events (CartPage_removeItem shop ''Sauce Labs Backpack'' cart_with_backpack)) =
       [ToBeVisible ?l None]"
    using a absent by blast
  have 2: "calls (events (Simple_CartPage_removeItem shop ''Sauce Labs Backpack'' ?stuck)) =
       [ToBeVisible ?l None, Click ?l]"
    using b seen_stuck stuck by blast
  have 3: "calls (events (CartPage_removeItem shop ''Sauce Labs Backpack''
         cart_with_remove_control)) =
       [ToBeVisible ?l None, Click ?l, NotToBeVisible ?l]"
    using c seen clicked by blast
  have t: "formattedItemName ''Test'' = ''test''"
    by code_simp
  have r: "formattedItemName ''allTheThings() T-Shirt (Red)'' = ''allthethings()-t-shirt-(red)''"
    by code_simp
  from a have "formattedItemName (''Test'' @ ''.'' @ ''allTheThings() T-Shirt (Red)'') =
      formattedItemName ''Test'' @ ''.'' @ formattedItemName ''allTheThings() T-Shirt (Red)''"
    by blast
  with t r have 4: "formattedItemName ''Test.allTheThings() T-Shirt (Red)'' =
       ''test.allthethings()-t-shirt-(red)''"
    by simp
  have f1: "formattedItemName (''CAF'' @ [CHR 0xC9, CHR 0xA0] @ ''Au'') =
      ''caf'' @ [CHR 0xE9] @ ''-au''"
    by code_simp
  have f2: "formattedItemName ''Lait'' = ''lait''"
    by code_simp
  from b hyphen
  have "formattedItemName ((''CAF'' @ [CHR 0xC9, CHR 0xA0] @ ''Au'') @ CHR ''-'' # ''Lait'') =
      formattedItemName (''CAF'' @ [CHR 0xC9, CHR 0xA0] @ ''Au'') @ CHR ''-''
        # formattedItemName ''Lait''"
    by blast
  with f1 f2 have 5: "formattedItemName (''CAF'' @ [CHR 0xC9, CHR 0xA0] @ ''Au-Lait'') =
       ''caf'' @ [CHR 0xE9] @ ''-au-lait''"
    by simp
  from sel 1 2 3 4 5 show ?thesis by blast
qed

subsection \<open>The address check of the checkout assertions\<close>






end
